theory Spec2Isabelle
  imports Main "HOL-Library.AList"
begin

section \<open>JavaScript values and string operations used by the webhook registry\<close>

text \<open>
  Strings are \<^typ>\<open>string\<close>: a string is the list of the bytes of its UTF-8 encoding, so a
  character is ASCII when its byte is below 128. On a string of ASCII characters
  \<^verbatim>\<open>String.prototype.toUpperCase\<close> and \<^verbatim>\<open>toLowerCase\<close> change the letters a-z and A-Z and
  nothing else; these are the two character functions below. On other strings they
  follow the Unicode case mappings, which are taken from outside (see \<open>Imports\<close>).
\<close>

definition dq :: string where
  "dq = [CHR 0x22]"

definition nl :: string where
  "nl = [CHR 0x0A]"

definition toUpperCase_char :: "char \<Rightarrow> char" where
  "toUpperCase_char c =
     (let n = (of_char c :: nat) in if 97 \<le> n \<and> n \<le> 122 then char_of (n - 32) else c)"

definition toLowerCase_char :: "char \<Rightarrow> char" where
  "toLowerCase_char c =
     (let n = (of_char c :: nat) in if 65 \<le> n \<and> n \<le> 90 then char_of (n + 32) else c)"

definition ascii :: "string \<Rightarrow> bool" where
  "ascii s = list_all (\<lambda>c. (of_char c :: nat) < 128) s"

text \<open>\<^verbatim>\<open>s.replace(/\//g, '_')\<close>: every slash becomes an underscore.\<close>

definition replace_slashes :: "string \<Rightarrow> string" where
  "replace_slashes s = map (\<lambda>c. if c = CHR ''/'' then CHR ''_'' else c) s"

text \<open>\<^verbatim>\<open>s.replace(/^pubsub:\/\//, '')\<close>: the prefix is dropped when it is there.\<close>

fun strip_prefix :: "string \<Rightarrow> string \<Rightarrow> string option" where
  "strip_prefix [] s = Some s"
| "strip_prefix (p # ps) [] = None"
| "strip_prefix (p # ps) (c # cs) = (if p = c then strip_prefix ps cs else None)"

definition replace_pubsub_prefix :: "string \<Rightarrow> string" where
  "replace_pubsub_prefix s = (case strip_prefix ''pubsub://'' s of Some r \<Rightarrow> r | None \<Rightarrow> s)"

text \<open>\<^verbatim>\<open>s.split(sep)\<close> for a one-character separator; the empty string gives one empty part.\<close>

fun split :: "char \<Rightarrow> string \<Rightarrow> string list" where
  "split sep [] = [[]]"
| "split sep (c # cs) =
     (if c = sep then [] # split sep cs
      else (case split sep cs of [] \<Rightarrow> [[c]] | p # ps \<Rightarrow> (c # p) # ps))"

text \<open>Array destructuring and indexing: an element that is not there is \<^verbatim>\<open>undefined\<close>.\<close>

definition element :: "'a list \<Rightarrow> nat \<Rightarrow> 'a option" where
  "element xs i = (if i < length xs then Some (xs ! i) else None)"

text \<open>A string or \<^verbatim>\<open>undefined\<close> inside a template literal.\<close>

definition interpolate :: "string option \<Rightarrow> string" where
  "interpolate v = (case v of None \<Rightarrow> ''undefined'' | Some s \<Rightarrow> s)"

text \<open>\<^verbatim>\<open>xs.join(sep)\<close>.\<close>

fun join :: "string \<Rightarrow> string list \<Rightarrow> string" where
  "join sep [] = []"
| "join sep [x] = x"
| "join sep (x # y # ys) = x @ sep @ join sep (y # ys)"

text \<open>Truthiness of an optional string: \<^verbatim>\<open>undefined\<close> and the empty string are falsy.\<close>

definition truthy_string :: "string option \<Rightarrow> bool" where
  "truthy_string v = (case v of None \<Rightarrow> False | Some s \<Rightarrow> s \<noteq> [])"

text \<open>
  Values of type \<^verbatim>\<open>any\<close>: the body of a mutation response, and whatever a handler or
  the transport throws. Objects keep their properties in an association list.
\<close>

datatype json =
    JUndefined
  | JNull
  | JBool bool
  | JNum int
  | JStr string
  | JArr "json list"
  | JObj "(string \<times> json) list"

fun truthy :: "json \<Rightarrow> bool" where
  "truthy JUndefined = False"
| "truthy JNull = False"
| "truthy (JBool b) = b"
| "truthy (JNum n) = (n \<noteq> 0)"
| "truthy (JStr s) = (s \<noteq> [])"
| "truthy (JArr xs) = True"
| "truthy (JObj kvs) = True"

datatype error =
    InvalidWebhookError string
  | UnsupportedClientType string
  | TypeError
  | Thrown json

text \<open>
  Reading a named property. On \<^verbatim>\<open>undefined\<close> and \<^verbatim>\<open>null\<close> it raises a TypeError; an
  object gives the property or \<^verbatim>\<open>undefined\<close>; the other values have none of the
  properties read in this module.
\<close>

fun property :: "json \<Rightarrow> string \<Rightarrow> error + json" where
  "property JUndefined k = Inl TypeError"
| "property JNull k = Inl TypeError"
| "property (JObj kvs) k = Inr (case map_of kvs k of None \<Rightarrow> JUndefined | Some v \<Rightarrow> v)"
| "property v k = Inr JUndefined"

section \<open>Delivery methods, configuration and imported helpers\<close>

datatype DeliveryMethod = Http | EventBridge | PubSub

text \<open>The fields of \<^verbatim>\<open>Context\<close> that the registry reads.\<close>

record Context =
  API_SECRET_KEY :: string
  HOST_NAME :: string
  API_VERSION :: string

text \<open>
  What the registry imports from the library's other modules (\<^verbatim>\<open>utils\<close>, \<^verbatim>\<open>base-types\<close>),
  whose code is not modelled: these are parameters. \<^verbatim>\<open>ShopifyUtilities.versionCompatible\<close>
  (applied to a reference version, it reads the configured version itself),
  \<^verbatim>\<open>ApiVersion.July21\<close>, \<^verbatim>\<open>createSHA256HMAC\<close>, \<^verbatim>\<open>ShopifyUtilities.safeCompare\<close> on two
  strings, and the three header names of \<^verbatim>\<open>ShopifyHeader\<close>. The last two fields are the
  language's \<^verbatim>\<open>toUpperCase\<close> and \<^verbatim>\<open>toLowerCase\<close> on strings that have a non-ASCII character.
\<close>

record Imports =
  versionCompatible :: "Context \<Rightarrow> string \<Rightarrow> bool"
  July21 :: string
  createSHA256HMAC :: "string \<Rightarrow> string \<Rightarrow> string"
  safeCompare :: "string \<Rightarrow> string \<Rightarrow> bool"
  Hmac :: string
  Topic :: string
  Domain :: string
  unicodeUpperCase :: "string \<Rightarrow> string"
  unicodeLowerCase :: "string \<Rightarrow> string"

definition toUpperCase :: "Imports \<Rightarrow> string \<Rightarrow> string" where
  "toUpperCase imp s = (if ascii s then map toUpperCase_char s else unicodeUpperCase imp s)"

definition toLowerCase :: "Imports \<Rightarrow> string \<Rightarrow> string" where
  "toLowerCase imp s = (if ascii s then map toLowerCase_char s else unicodeLowerCase imp s)"

definition versionSupportsPubSub :: "Imports \<Rightarrow> Context \<Rightarrow> bool" where
  "versionSupportsPubSub imp ctx = versionCompatible imp ctx (July21 imp)"

definition validateDeliveryMethod :: "Imports \<Rightarrow> Context \<Rightarrow> DeliveryMethod \<Rightarrow> error + unit" where
  "validateDeliveryMethod imp ctx deliveryMethod =
     (if deliveryMethod = PubSub \<and> \<not> versionSupportsPubSub imp ctx
      then Inl (UnsupportedClientType
                 (''Pub/Sub webhooks are not supported in API version '' @ dq @ API_VERSION ctx @ dq @ ''.''))
      else Inr ())"

section \<open>Query documents\<close>

definition buildCheckQuery :: "Imports \<Rightarrow> Context \<Rightarrow> string \<Rightarrow> string" where
  "buildCheckQuery imp ctx topic =
     ''{'' @ nl @
     ''    webhookSubscriptions(first: 1, topics: '' @ topic @ '') {'' @ nl @
     ''      edges {'' @ nl @
     ''        node {'' @ nl @
     ''          id'' @ nl @
     ''          endpoint {'' @ nl @
     ''            __typename'' @ nl @
     ''            ... on WebhookHttpEndpoint {'' @ nl @
     ''              callbackUrl'' @ nl @
     ''            }'' @ nl @
     ''            ... on WebhookEventBridgeEndpoint {'' @ nl @
     ''              arn'' @ nl @
     ''            }'' @ nl @
     ''            '' @
     (if versionSupportsPubSub imp ctx
      then ''... on WebhookPubSubEndpoint { '' @
           ''                    pubSubProject '' @
           ''                    pubSubTopic '' @
           ''                  }''
      else '''') @ nl @
     ''          }'' @ nl @
     ''        }'' @ nl @
     ''      }'' @ nl @
     ''    }'' @ nl @
     ''  }''"

text \<open>
  The three locals of \<^verbatim>\<open>buildQuery\<close>: \<^verbatim>\<open>identifier\<close>, \<^verbatim>\<open>mutationName\<close> and
  \<^verbatim>\<open>webhookSubscriptionArgs\<close>, and the document they are put into. A subscription id is
  looked at through its truthiness, so the empty id counts as none.
\<close>

definition identifier_arg :: "string \<Rightarrow> string option \<Rightarrow> string" where
  "identifier_arg topic webhookId =
     (if truthy_string webhookId then ''id: '' @ dq @ interpolate webhookId @ dq
      else ''topic: '' @ topic)"

definition mutationName :: "DeliveryMethod \<Rightarrow> string option \<Rightarrow> string" where
  "mutationName deliveryMethod webhookId =
     (case deliveryMethod of
        Http \<Rightarrow>
          (if truthy_string webhookId then ''webhookSubscriptionUpdate''
           else ''webhookSubscriptionCreate'')
      | EventBridge \<Rightarrow>
          (if truthy_string webhookId then ''eventBridgeWebhookSubscriptionUpdate''
           else ''eventBridgeWebhookSubscriptionCreate'')
      | PubSub \<Rightarrow>
          (if truthy_string webhookId then ''pubSubWebhookSubscriptionUpdate''
           else ''pubSubWebhookSubscriptionCreate''))"

definition webhookSubscriptionArgs :: "DeliveryMethod \<Rightarrow> string \<Rightarrow> string" where
  "webhookSubscriptionArgs deliveryMethod address =
     (case deliveryMethod of
        Http \<Rightarrow> ''{callbackUrl: '' @ dq @ address @ dq @ ''}''
      | EventBridge \<Rightarrow> ''{arn: '' @ dq @ address @ dq @ ''}''
      | PubSub \<Rightarrow>
          (let parts = split CHR '':'' (replace_pubsub_prefix address);
               pubSubProject = element parts 0;
               pubSubTopic = element parts 1
           in ''{pubSubProject: '' @ dq @ interpolate pubSubProject @ dq @ '','' @ nl @
              ''                                  pubSubTopic: '' @ dq @ interpolate pubSubTopic @ dq @ ''}''))"

definition mutation_document :: "string \<Rightarrow> string \<Rightarrow> string \<Rightarrow> string" where
  "mutation_document name ident args =
     nl @
     ''    mutation webhookSubscription {'' @ nl @
     ''      '' @ name @ ''('' @ ident @ '', webhookSubscription: '' @ args @ '') {'' @ nl @
     ''        userErrors {'' @ nl @
     ''          field'' @ nl @
     ''          message'' @ nl @
     ''        }'' @ nl @
     ''        webhookSubscription {'' @ nl @
     ''          id'' @ nl @
     ''        }'' @ nl @
     ''      }'' @ nl @
     ''    }'' @ nl @
     ''  ''"

text \<open>The delivery method is an optional argument with default \<^verbatim>\<open>DeliveryMethod.Http\<close>.\<close>

definition default_method :: "DeliveryMethod option \<Rightarrow> DeliveryMethod" where
  "default_method deliveryMethod = (case deliveryMethod of None \<Rightarrow> Http | Some m \<Rightarrow> m)"

definition buildQuery ::
  "Imports \<Rightarrow> Context \<Rightarrow> string \<Rightarrow> string \<Rightarrow> DeliveryMethod option \<Rightarrow> string option \<Rightarrow> error + string"
where
  "buildQuery imp ctx topic address deliveryMethod webhookId =
     (let m = default_method deliveryMethod in
      case validateDeliveryMethod imp ctx m of
        Inl e \<Rightarrow> Inl e
      | Inr _ \<Rightarrow>
          Inr (mutation_document (mutationName m webhookId) (identifier_arg topic webhookId)
                 (webhookSubscriptionArgs m address)))"

section \<open>The remote GraphQL transport\<close>

text \<open>
  Modelled from the spec: the type declaration \<^verbatim>\<open>WebhookCheckResponse\<close> of \<^verbatim>\<open>./types\<close>,
  which \<^verbatim>\<open>register\<close> imports. The check query's response is
  \<^verbatim>\<open>data.webhookSubscriptions.edges[i].node.{id, endpoint}\<close>, the endpoint a union
  discriminated by \<^verbatim>\<open>__typename\<close> with \<^verbatim>\<open>callbackUrl\<close>, \<^verbatim>\<open>arn\<close> or
  \<^verbatim>\<open>pubSubProject\<close> and \<^verbatim>\<open>pubSubTopic\<close>. The response is the list of the nodes of its edges.
\<close>

datatype endpoint =
    WebhookHttpEndpoint (callbackUrl: string)
  | WebhookEventBridgeEndpoint (arn: string)
  | WebhookPubSubEndpoint (pubSubProject: string) (pubSubTopic: string)

datatype node = Node (node_id: string) (node_endpoint: endpoint)

type_synonym WebhookCheckResponse = "node list"

text \<open>
  \<^verbatim>\<open>client.query\<close> resolves with a body or rejects with a thrown value, and may change the
  remote state \<^typ>\<open>'r\<close>. Its body is untyped: \<^verbatim>\<open>register\<close> casts the body of its first call
  to \<^verbatim>\<open>WebhookCheckResponse\<close> and hands the body of its second call to \<^verbatim>\<open>isSuccess\<close> as
  \<^verbatim>\<open>any\<close>. The model gives the method these two types, one for each call site.
\<close>

record 'r GraphqlClient =
  query_check :: "string \<Rightarrow> 'r \<Rightarrow> (json + WebhookCheckResponse) \<times> 'r"
  query :: "string \<Rightarrow> 'r \<Rightarrow> (json + json) \<times> 'r"

text \<open>The network: the documents sent so far, in order, and the remote state.\<close>

record 'r network =
  calls :: "string list"
  remote :: 'r

definition send_check ::
  "'r GraphqlClient \<Rightarrow> string \<Rightarrow> 'r network \<Rightarrow> (error + WebhookCheckResponse) \<times> 'r network"
where
  "send_check client doc s =
     (case query_check client doc (remote s) of
        (Inl v, r) \<Rightarrow> (Inl (Thrown v), \<lparr>calls = calls s @ [doc], remote = r\<rparr>)
      | (Inr b, r) \<Rightarrow> (Inr b, \<lparr>calls = calls s @ [doc], remote = r\<rparr>))"

definition send ::
  "'r GraphqlClient \<Rightarrow> string \<Rightarrow> 'r network \<Rightarrow> (error + json) \<times> 'r network"
where
  "send client doc s =
     (case query client doc (remote s) of
        (Inl v, r) \<Rightarrow> (Inl (Thrown v), \<lparr>calls = calls s @ [doc], remote = r\<rparr>)
      | (Inr b, r) \<Rightarrow> (Inr b, \<lparr>calls = calls s @ [doc], remote = r\<rparr>))"

section \<open>Registration\<close>

definition isSuccess :: "json \<Rightarrow> DeliveryMethod \<Rightarrow> string option \<Rightarrow> error + bool" where
  "isSuccess result deliveryMethod webhookId =
     (let endpoint =
            (case deliveryMethod of
               Http \<Rightarrow> ''webhookSubscription''
             | EventBridge \<Rightarrow> ''eventBridgeWebhookSubscription''
             | PubSub \<Rightarrow> ''pubSubWebhookSubscription'')
            @ (if truthy_string webhookId then ''Update'' else ''Create'')
      in case property result ''data'' of
           Inl e \<Rightarrow> Inl e
         | Inr d \<Rightarrow>
             if \<not> truthy d then Inr False
             else (case property d endpoint of
                     Inl e \<Rightarrow> Inl e
                   | Inr x \<Rightarrow>
                       if \<not> truthy x then Inr False
                       else (case property x ''webhookSubscription'' of
                               Inl e \<Rightarrow> Inl e
                             | Inr y \<Rightarrow> Inr (truthy y))))"

record RegisterResult =
  success :: bool
  result :: json

type_synonym RegisterReturn = "(string \<times> RegisterResult) list"

text \<open>The local \<^verbatim>\<open>address\<close> of \<^verbatim>\<open>register\<close>.\<close>

definition target_address :: "Context \<Rightarrow> DeliveryMethod \<Rightarrow> string \<Rightarrow> string" where
  "target_address ctx deliveryMethod path =
     (if deliveryMethod = Http then ''https://'' @ HOST_NAME ctx @ path else path)"

text \<open>
  The locals \<^verbatim>\<open>webhookId\<close> and \<^verbatim>\<open>mustRegister\<close> after the check response has been read.
\<close>

definition read_check :: "WebhookCheckResponse \<Rightarrow> string \<Rightarrow> string option \<times> bool" where
  "read_check edges address =
     (case edges of
        [] \<Rightarrow> (None, True)
      | n # _ \<Rightarrow>
          (let endpointAddress =
                 (case node_endpoint n of
                    WebhookHttpEndpoint url \<Rightarrow> url
                  | WebhookEventBridgeEndpoint a \<Rightarrow> a
                  | WebhookPubSubEndpoint p t \<Rightarrow> [])
           in (Some (node_id n), endpointAddress \<noteq> address)))"

definition register ::
  "Imports \<Rightarrow> Context \<Rightarrow> (string \<Rightarrow> string \<Rightarrow> 'r GraphqlClient) \<Rightarrow>
   string \<Rightarrow> string \<Rightarrow> string \<Rightarrow> string \<Rightarrow> DeliveryMethod option \<Rightarrow>
   'r network \<Rightarrow> (error + RegisterReturn) \<times> 'r network"
where
  "register imp ctx new_client path topic accessToken shop deliveryMethod s =
     (let m = default_method deliveryMethod in
      case validateDeliveryMethod imp ctx m of
        Inl e \<Rightarrow> (Inl e, s)
      | Inr _ \<Rightarrow>
          (let client = new_client shop accessToken;
               address = target_address ctx m path
           in case send_check client (buildCheckQuery imp ctx topic) s of
                (Inl e, s1) \<Rightarrow> (Inl e, s1)
              | (Inr edges, s1) \<Rightarrow>
                  (case read_check edges address of
                     (webhookId, mustRegister) \<Rightarrow>
                       if mustRegister then
                         (case buildQuery imp ctx topic address (Some m) webhookId of
                            Inl e \<Rightarrow> (Inl e, s1)
                          | Inr doc \<Rightarrow>
                              (case send client doc s1 of
                                 (Inl e, s2) \<Rightarrow> (Inl e, s2)
                               | (Inr b, s2) \<Rightarrow>
                                   (case isSuccess b m webhookId of
                                      Inl e \<Rightarrow> (Inl e, s2)
                                    | Inr ok \<Rightarrow>
                                        (Inr [(topic, \<lparr>success = ok, result = b\<rparr>)], s2))))
                       else (Inr [(topic, \<lparr>success = True, result = JObj []\<rparr>)], s1))))"

section \<open>The handler table\<close>

text \<open>
  A handler gets the topic, the shop domain and the raw body; it may change the
  application's state \<^typ>\<open>'w\<close>, and it resolves or throws a value.
\<close>

datatype settled = Resolved | Rejected json

record 'w WebhookRegistryEntry =
  path :: string
  webhookHandler :: "string \<Rightarrow> string \<Rightarrow> string \<Rightarrow> 'w \<Rightarrow> settled \<times> 'w"

text \<open>
  \<^verbatim>\<open>WebhooksRegistry.webhookRegistry\<close>, an object used as a dictionary: an association list
  with one pair for each key, in insertion order. Topics are not array indices, which
  \<^verbatim>\<open>Object.keys\<close> would list first, and not names of properties of \<^verbatim>\<open>Object.prototype\<close>.
\<close>

type_synonym 'w webhookRegistry = "(string \<times> 'w WebhookRegistryEntry) list"

definition addHandler ::
  "string \<Rightarrow> 'w WebhookRegistryEntry \<Rightarrow> 'w webhookRegistry \<Rightarrow> 'w webhookRegistry"
where
  "addHandler topic entry reg =
     AList.update topic \<lparr>path = path entry, webhookHandler = webhookHandler entry\<rparr> reg"

fun addHandlers ::
  "(string \<times> 'w WebhookRegistryEntry) list \<Rightarrow> 'w webhookRegistry \<Rightarrow> 'w webhookRegistry"
where
  "addHandlers [] reg = reg"
| "addHandlers ((topic, entry) # handlers) reg = addHandlers handlers (addHandler topic entry reg)"

definition getHandler :: "'w webhookRegistry \<Rightarrow> string \<Rightarrow> 'w WebhookRegistryEntry option" where
  "getHandler reg topic = map_of reg topic"

definition getTopics :: "'w webhookRegistry \<Rightarrow> string list" where
  "getTopics reg = map fst reg"

definition isWebhookPath :: "'w webhookRegistry \<Rightarrow> string \<Rightarrow> bool" where
  "isWebhookPath reg p = list_ex (\<lambda>(key, entry). path entry = p) reg"

text \<open>
  \<^verbatim>\<open>registerAll\<close>: the loop over the topics, with the mapping built so far. A rejected
  \<^verbatim>\<open>register\<close> is not caught, so it ends the loop.
\<close>

fun registerAll_loop ::
  "Imports \<Rightarrow> Context \<Rightarrow> (string \<Rightarrow> string \<Rightarrow> 'r GraphqlClient) \<Rightarrow> 'w webhookRegistry \<Rightarrow>
   string \<Rightarrow> string \<Rightarrow> DeliveryMethod \<Rightarrow> string list \<Rightarrow> RegisterReturn \<Rightarrow>
   'r network \<Rightarrow> (error + RegisterReturn) \<times> 'r network"
where
  "registerAll_loop imp ctx new_client reg accessToken shop m [] registerReturn s =
     (Inr registerReturn, s)"
| "registerAll_loop imp ctx new_client reg accessToken shop m (topic # topics) registerReturn s =
     (case getHandler reg topic of
        None \<Rightarrow> registerAll_loop imp ctx new_client reg accessToken shop m topics registerReturn s
      | Some handler \<Rightarrow>
          (case register imp ctx new_client (path handler) topic accessToken shop (Some m) s of
             (Inl e, s1) \<Rightarrow> (Inl e, s1)
           | (Inr returnedRegister, s1) \<Rightarrow>
               registerAll_loop imp ctx new_client reg accessToken shop m topics
                 (fold (\<lambda>(k, v). AList.update k v) returnedRegister registerReturn) s1))"

definition registerAll ::
  "Imports \<Rightarrow> Context \<Rightarrow> (string \<Rightarrow> string \<Rightarrow> 'r GraphqlClient) \<Rightarrow> 'w webhookRegistry \<Rightarrow>
   string \<Rightarrow> string \<Rightarrow> DeliveryMethod option \<Rightarrow>
   'r network \<Rightarrow> (error + RegisterReturn) \<times> 'r network"
where
  "registerAll imp ctx new_client reg accessToken shop deliveryMethod s =
     registerAll_loop imp ctx new_client reg accessToken shop (default_method deliveryMethod)
       (getTopics reg) [] s"

section \<open>Processing an inbound webhook\<close>

text \<open>
  The request as \<^verbatim>\<open>process\<close> reads it: the raw body, which may be absent, and the header
  pairs that \<^verbatim>\<open>flatHeaders\<close> yields, in order. Of the response, the two fields written.
\<close>

record Request =
  body :: "string option"
  headers :: "(string \<times> string) list"

record Response =
  statusCode :: nat
  headers :: "(string \<times> string) list"

text \<open>The members of \<^verbatim>\<open>StatusCode\<close> in use.\<close>

definition Ok :: nat where
  "Ok = 200"

definition BadRequest :: nat where
  "BadRequest = 400"

definition Forbidden :: nat where
  "Forbidden = 403"

definition InternalServerError :: nat where
  "InternalServerError = 500"

text \<open>
  The loop over the header pairs with its three locals \<^verbatim>\<open>hmac\<close>, \<^verbatim>\<open>topic\<close> and
  \<^verbatim>\<open>domain\<close>; the first matching case of the switch is taken.
\<close>

fun read_headers ::
  "Imports \<Rightarrow> (string \<times> string) list \<Rightarrow> string option \<times> string option \<times> string option \<Rightarrow>
   string option \<times> string option \<times> string option"
where
  "read_headers imp [] locals = locals"
| "read_headers imp ((header, v) # rest) (hmac, topic, domain) =
     read_headers imp rest
       (if toLowerCase imp header = toLowerCase imp (Hmac imp) then (Some v, topic, domain)
        else if toLowerCase imp header = toLowerCase imp (Topic imp) then (hmac, Some v, domain)
        else if toLowerCase imp header = toLowerCase imp (Domain imp) then (hmac, topic, Some v)
        else (hmac, topic, domain))"

definition missingHeaders ::
  "Imports \<Rightarrow> string option \<times> string option \<times> string option \<Rightarrow> string list"
where
  "missingHeaders imp locals =
     (case locals of
        (hmac, topic, domain) \<Rightarrow>
          (if \<not> truthy_string hmac then [Hmac imp] else []) @
          (if \<not> truthy_string topic then [Topic imp] else []) @
          (if \<not> truthy_string domain then [Domain imp] else []))"

definition graphqlTopic :: "Imports \<Rightarrow> string \<Rightarrow> string" where
  "graphqlTopic imp topic = replace_slashes (toUpperCase imp topic)"

text \<open>
  \<^verbatim>\<open>process\<close> gives back the error it throws, if any, the response as it has written it,
  and the application's state.
\<close>

definition process ::
  "Imports \<Rightarrow> Context \<Rightarrow> 'w webhookRegistry \<Rightarrow> Request \<Rightarrow> Response \<Rightarrow> 'w \<Rightarrow>
   error option \<times> Response \<times> 'w"
where
  "process imp ctx reg request response w =
     (if \<not> truthy_string (body request) then
        (Some (InvalidWebhookError ''No body was received when processing webhook''),
         response\<lparr>statusCode := BadRequest\<rparr>, w)
      else
        (let reqBody = interpolate (body request);
             locals = read_headers imp (Request.headers request) (None, None, None);
             missing = missingHeaders imp locals
         in if length missing > 0 then
              (Some (InvalidWebhookError
                 (''Missing one or more of the required HTTP headers to process webhooks: ['' @
                  join '', '' missing @ '']'')),
               response\<lparr>statusCode := BadRequest\<rparr>, w)
            else
              (case locals of
                 (hmac, topic, domain) \<Rightarrow>
                   (let generatedHash = createSHA256HMAC imp (API_SECRET_KEY ctx) reqBody in
                    if safeCompare imp generatedHash (interpolate hmac) then
                      (case getHandler reg (graphqlTopic imp (interpolate topic)) of
                         Some webhookEntry \<Rightarrow>
                           (case webhookHandler webhookEntry (graphqlTopic imp (interpolate topic))
                                   (interpolate domain) reqBody w of
                              (Resolved, w1) \<Rightarrow>
                                (None, response\<lparr>statusCode := Ok, headers := []\<rparr>, w1)
                            | (Rejected v, w1) \<Rightarrow>
                                (if truthy v then Some (Thrown v) else None,
                                 response\<lparr>statusCode := InternalServerError, headers := []\<rparr>, w1))
                       | None \<Rightarrow>
                           (Some (InvalidWebhookError
                              (''No webhook is registered for topic '' @ interpolate topic)),
                            response\<lparr>statusCode := Forbidden, headers := []\<rparr>, w))
                    else
                      (Some (InvalidWebhookError
                         (''Could not validate request for topic '' @ interpolate topic)),
                       response\<lparr>statusCode := Forbidden, headers := []\<rparr>, w)))))"

section \<open>Example configurations, transports and requests\<close>

text \<open>
  Concrete values for the imported helpers and a scripted transport, used to run the
  definitions on examples. The stand-in for the keyed digest joins key and body; the
  comparison is equality of the two digests. The strings of the examples are ASCII, so
  the stand-ins for the Unicode case mappings are never applied.
\<close>

definition example_imports :: Imports where
  "example_imports =
     \<lparr>versionCompatible =
        (\<lambda>ctx reference. API_VERSION ctx \<in> set [''2021-07'', ''2021-10'', ''unstable'']),
      July21 = ''2021-07'',
      createSHA256HMAC = (\<lambda>key b. key @ '':'' @ b),
      safeCompare = (\<lambda>a b. a = b),
      Hmac = ''X-Shopify-Hmac-Sha256'',
      Topic = ''X-Shopify-Topic'',
      Domain = ''X-Shopify-Shop-Domain'',
      unicodeUpperCase = (\<lambda>s. s),
      unicodeLowerCase = (\<lambda>s. s)\<rparr>"

definition example_context :: Context where
  "example_context =
     \<lparr>API_SECRET_KEY = ''secret'', HOST_NAME = ''app.example.com'', API_VERSION = ''2021-10''\<rparr>"

definition old_context :: Context where
  "old_context =
     \<lparr>API_SECRET_KEY = ''secret'', HOST_NAME = ''app.example.com'', API_VERSION = ''2021-04''\<rparr>"

text \<open>A transport that answers from two scripts, one for each kind of call.\<close>

record script =
  check_replies :: "(json + WebhookCheckResponse) list"
  replies :: "(json + json) list"

definition scripted_client :: "string \<Rightarrow> string \<Rightarrow> script GraphqlClient" where
  "scripted_client shop accessToken =
     \<lparr>query_check = (\<lambda>doc r. case check_replies r of
                         [] \<Rightarrow> (Inl (JStr ''no reply''), r)
                       | x # xs \<Rightarrow> (x, r\<lparr>check_replies := xs\<rparr>)),
      query = (\<lambda>doc r. case replies r of
                         [] \<Rightarrow> (Inl (JStr ''no reply''), r)
                       | x # xs \<Rightarrow> (x, r\<lparr>replies := xs\<rparr>))\<rparr>"

definition subscription_payload :: "string \<Rightarrow> json" where
  "subscription_payload name =
     JObj [(''data'', JObj [(name, JObj [(''userErrors'', JArr []),
        (''webhookSubscription'', JObj [(''id'', JStr ''gid://shopify/WebhookSubscription/1'')])])])]"

text \<open>The remote already has a Pub/Sub subscription to \<^verbatim>\<open>my-project\<close>, \<^verbatim>\<open>my-topic\<close>.\<close>

definition pubsub_subscribed :: "script network" where
  "pubsub_subscribed =
     \<lparr>calls = [],
      remote =
        \<lparr>check_replies = [Inr [Node ''gid://shopify/WebhookSubscription/1''
                                 (WebhookPubSubEndpoint ''my-project'' ''my-topic'')]],
         replies = [Inr (subscription_payload ''pubSubWebhookSubscriptionUpdate'')]\<rparr>\<rparr>"

text \<open>
  The remote has no subscription yet; it accepts the mutations, and after the first one
  it reports the Pub/Sub subscription.
\<close>

definition pubsub_unsubscribed :: "script network" where
  "pubsub_unsubscribed =
     \<lparr>calls = [],
      remote =
        \<lparr>check_replies = [Inr [], Inr [Node ''gid://shopify/WebhookSubscription/1''
                                         (WebhookPubSubEndpoint ''my-project'' ''my-topic'')]],
         replies = [Inr (subscription_payload ''pubSubWebhookSubscriptionCreate''),
                    Inr (subscription_payload ''pubSubWebhookSubscriptionUpdate'')]\<rparr>\<rparr>"

text \<open>The remote has a callback subscription to another host.\<close>

definition http_subscribed_elsewhere :: "script network" where
  "http_subscribed_elsewhere =
     \<lparr>calls = [],
      remote =
        \<lparr>check_replies = [Inr [Node ''gid://shopify/WebhookSubscription/1''
                                 (WebhookHttpEndpoint ''https://old.example.com/webhooks'')]],
         replies = [Inr (subscription_payload ''webhookSubscriptionUpdate'')]\<rparr>\<rparr>"

text \<open>The remote reports a callback subscription to another host, with an empty id.\<close>

definition http_empty_id :: "script network" where
  "http_empty_id =
     \<lparr>calls = [],
      remote =
        \<lparr>check_replies = [Inr [Node [] (WebhookHttpEndpoint ''https://old.example.com/webhooks'')]],
         replies = [Inr (subscription_payload ''webhookSubscriptionCreate'')]\<rparr>\<rparr>"

text \<open>Three handlers that do nothing, and two scripts for registering them all.\<close>

definition quiet_handler :: "string \<Rightarrow> string \<Rightarrow> string \<Rightarrow> unit \<Rightarrow> settled \<times> unit" where
  "quiet_handler topic shop b w = (Resolved, w)"

definition three_topics :: "unit webhookRegistry" where
  "three_topics =
     addHandlers
       [(''ORDERS_CREATE'', \<lparr>path = ''/webhooks/orders'', webhookHandler = quiet_handler\<rparr>),
        (''PRODUCTS_UPDATE'', \<lparr>path = ''/webhooks/products'', webhookHandler = quiet_handler\<rparr>),
        (''APP_UNINSTALLED'', \<lparr>path = ''/webhooks/app'', webhookHandler = quiet_handler\<rparr>)] []"

definition second_mutation_rejects :: "script network" where
  "second_mutation_rejects =
     \<lparr>calls = [],
      remote =
        \<lparr>check_replies = [Inr [], Inr [], Inr []],
         replies = [Inr (subscription_payload ''webhookSubscriptionCreate''),
                    Inl (JStr ''network error''),
                    Inr (subscription_payload ''webhookSubscriptionCreate'')]\<rparr>\<rparr>"

definition second_mutation_fails :: "script network" where
  "second_mutation_fails =
     \<lparr>calls = [],
      remote =
        \<lparr>check_replies = [Inr [], Inr [], Inr []],
         replies = [Inr (subscription_payload ''webhookSubscriptionCreate''),
                    Inr (JObj [(''data'', JObj [(''webhookSubscriptionCreate'', JNull)])]),
                    Inr (subscription_payload ''webhookSubscriptionCreate'')]\<rparr>\<rparr>"

text \<open>
  A handler that records its arguments in the application's state, a registry with this
  handler under \<^verbatim>\<open>ORDERS_CREATE\<close>, and inbound requests.
\<close>

type_synonym invocations = "(string \<times> string \<times> string) list"

definition logging_handler :: "string \<Rightarrow> string \<Rightarrow> string \<Rightarrow> invocations \<Rightarrow> settled \<times> invocations" where
  "logging_handler topic shop b w = (Resolved, w @ [(topic, shop, b)])"

definition orders_registry :: "invocations webhookRegistry" where
  "orders_registry =
     addHandler ''ORDERS_CREATE'' \<lparr>path = ''/webhooks'', webhookHandler = logging_handler\<rparr> []"

definition signed_request :: Request where
  "signed_request =
     \<lparr>body = Some ''{id: 1}'',
      headers = [(''x-shopify-hmac-sha256'', ''secret:{id: 1}''),
                 (''X-Shopify-Topic'', ''orders/create''),
                 (''X-Shopify-Shop-Domain'', ''shop.example.com'')]\<rparr>"

definition forged_request :: Request where
  "forged_request =
     \<lparr>body = Some ''{id: 1}'',
      headers = [(''x-shopify-hmac-sha256'', ''forged''),
                 (''X-Shopify-Topic'', ''orders/create''),
                 (''X-Shopify-Shop-Domain'', ''shop.example.com'')]\<rparr>"

definition no_topic_request :: Request where
  "no_topic_request =
     \<lparr>body = Some ''{id: 1}'',
      headers = [(''X-Shopify-Hmac-Sha256'', ''secret:{id: 1}''),
                 (''X-Shopify-Shop-Domain'', ''shop.example.com'')]\<rparr>"


definition no_headers_request :: Request where
  "no_headers_request = \<lparr>body = Some ''{id: 1}'', headers = []\<rparr>"

definition fresh_response :: Response where
  "fresh_response = \<lparr>statusCode = 0, headers = [(''Content-Type'', ''text/plain'')]\<rparr>"


section \<open>Properties of the query builder\<close>

lemma split_without_separator: "sep \<notin> set s \<Longrightarrow> split sep s = [s]"
  by (induction s) auto

lemma split_at_first_separator:
  "sep \<notin> set p \<Longrightarrow> split sep (p @ sep # rest) = p # split sep rest"
  by (induction p) auto

lemma strip_prefix_append: "strip_prefix p (p @ s) = Some s"
  by (induction p) auto

lemma pubsub_address_parts:
  assumes "CHR '':'' \<notin> set p" and "CHR '':'' \<notin> set t"
  shows "split CHR '':'' (replace_pubsub_prefix (''pubsub://'' @ p @ '':'' @ t)) = [p, t]"
proof -
  have "replace_pubsub_prefix (''pubsub://'' @ p @ '':'' @ t) = p @ '':'' @ t"
    unfolding replace_pubsub_prefix_def
    using strip_prefix_append [of "''pubsub://''" "p @ '':'' @ t"] by simp
  moreover have "split CHR '':'' (p @ CHR '':'' # t) = p # split CHR '':'' t"
    using assms(1) by (rule split_at_first_separator)
  ultimately show ?thesis
    using assms(2) by (simp add: split_without_separator)
qed

lemma default_method_Some: "default_method (Some m) = m"
  by (simp add: default_method_def)

lemma validate_passes:
  "(deliveryMethod = Some PubSub \<longrightarrow> versionSupportsPubSub imp ctx) \<Longrightarrow>
   validateDeliveryMethod imp ctx (default_method deliveryMethod) = Inr ()"
  by (auto simp: validateDeliveryMethod_def default_method_def split: option.splits)

lemma strip_prefix_take_drop:
  "strip_prefix p s = (if take (length p) s = p then Some (drop (length p) s) else None)"
  by (induction p s rule: strip_prefix.induct) auto

lemma replace_pubsub_prefix_take_drop:
  "replace_pubsub_prefix a = (if take 9 a = ''pubsub://'' then drop 9 a else a)"
proof -
  have l: "length ''pubsub://'' = 9"
    by simp
  have "strip_prefix ''pubsub://'' a =
          (if take 9 a = ''pubsub://'' then Some (drop 9 a) else None)"
    using strip_prefix_take_drop [of "''pubsub://''" a] unfolding l .
  then show ?thesis
    unfolding replace_pubsub_prefix_def by (simp only: option.case if_distrib [of "case_option a (\<lambda>r. r)"] split: if_splits)
qed

lemma split_first_part:
  "split sep s =
     takeWhile (\<lambda>c. c \<noteq> sep) s #
     (case dropWhile (\<lambda>c. c \<noteq> sep) s of [] \<Rightarrow> [] | c # r \<Rightarrow> split sep r)"
  by (induction s) (auto split: list.splits)

lemma split_parts:
  "element (split sep s) 0 = Some (takeWhile (\<lambda>c. c \<noteq> sep) s)"
  "element (split sep s) (Suc 0) =
     (if dropWhile (\<lambda>c. c \<noteq> sep) s = [] then None
      else Some (takeWhile (\<lambda>c. c \<noteq> sep) (tl (dropWhile (\<lambda>c. c \<noteq> sep) s))))"
proof -
  show "element (split sep s) 0 = Some (takeWhile (\<lambda>c. c \<noteq> sep) s)"
    by (subst split_first_part) (simp add: element_def)
  show "element (split sep s) (Suc 0) =
     (if dropWhile (\<lambda>c. c \<noteq> sep) s = [] then None
      else Some (takeWhile (\<lambda>c. c \<noteq> sep) (tl (dropWhile (\<lambda>c. c \<noteq> sep) s))))"
  proof (cases "dropWhile (\<lambda>c. c \<noteq> sep) s")
    case Nil
    show ?thesis
      by (subst split_first_part) (simp add: element_def Nil)
  next
    case (Cons c r)
    have "split sep r \<noteq> []"
      by (subst split_first_part) simp
    moreover have "split sep r ! 0 = takeWhile (\<lambda>c. c \<noteq> sep) r"
      by (subst split_first_part) simp
    ultimately show ?thesis
      by (subst split_first_part) (simp add: element_def Cons)
  qed
qed

text \<open>The address argument, with the parts of a Pub/Sub address given by list functions.\<close>

lemma webhookSubscriptionArgs_text:
  "webhookSubscriptionArgs m address =
     (let q = [CHR 0x22];
          rest = (if take 9 address = ''pubsub://'' then drop 9 address else address);
          project = takeWhile (\<lambda>c. c \<noteq> CHR '':'') rest;
          after = dropWhile (\<lambda>c. c \<noteq> CHR '':'') rest;
          pubsub_topic = (if after = [] then ''undefined''
                          else takeWhile (\<lambda>c. c \<noteq> CHR '':'') (tl after))
      in case m of
           Http \<Rightarrow> ''{callbackUrl: '' @ q @ address @ q @ ''}''
         | EventBridge \<Rightarrow> ''{arn: '' @ q @ address @ q @ ''}''
         | PubSub \<Rightarrow>
             ''{pubSubProject: '' @ q @ project @ q @
             '',\<newline>                                  pubSubTopic: '' @ q @ pubsub_topic @ q @ ''}'')"
  by (auto simp: webhookSubscriptionArgs_def Let_def split_parts replace_pubsub_prefix_take_drop
      interpolate_def dq_def nl_def split: DeliveryMethod.splits)

lemma mutation_document_text:
  "mutation_document name ident args =
     ''\<newline>    mutation webhookSubscription {\<newline>      '' @ name @ ''('' @ ident @
     '', webhookSubscription: '' @ args @
     '') {\<newline>        userErrors {\<newline>          field\<newline>          message\<newline>        }\<newline>        webhookSubscription {\<newline>          id\<newline>        }\<newline>      }\<newline>    }\<newline>  ''"
  by (simp add: mutation_document_def nl_def)

text \<open>
  Claim C7, as stated, fails for PubSub while the configured version does not support
  Pub/Sub: \<^verbatim>\<open>buildQuery\<close> validates the delivery method first and throws
  \<^verbatim>\<open>UnsupportedClientType\<close>; no mutation name is selected and no document is built.
\<close>

theorem buildQuery_pubsub_below_cutoff_throws:
  "buildQuery example_imports old_context ''ORDERS_CREATE'' ''pubsub://my-project:my-topic''
     (Some PubSub) None =
   Inl (UnsupportedClientType
          (''Pub/Sub webhooks are not supported in API version '' @ [CHR 0x22] @ ''2021-04'' @
           [CHR 0x22] @ ''.''))"
  by code_simp

text \<open>
  Claim C7, amended. For PubSub below the cutoff \<^verbatim>\<open>buildQuery\<close> throws
  \<^verbatim>\<open>UnsupportedClientType\<close>. In every other case it returns the mutation document, given
  here as text, whose mutation name is the method's name from the table (Http:
  webhookSubscription, EventBridge: eventBridgeWebhookSubscription, PubSub:
  pubSubWebhookSubscription) followed by Update when a non-empty subscription id is
  supplied and by Create otherwise, whose first argument is the id in the first case and
  the topic in the second, and whose address argument is \<^verbatim>\<open>{callbackUrl}\<close> for Http,
  \<^verbatim>\<open>{arn}\<close> for EventBridge and \<^verbatim>\<open>{pubSubProject, pubSubTopic}\<close> for PubSub. These two are
  taken from the address without its \<^verbatim>\<open>pubsub://\<close> prefix: the project is what stands before
  the first colon, the topic what stands between the first colon and the second (or the
  end), and \<^verbatim>\<open>undefined\<close> when there is no colon. For an address \<^verbatim>\<open>pubsub://p:t\<close> they are
  \<^verbatim>\<open>p\<close> and \<^verbatim>\<open>t\<close>.
\<close>

theorem buildQuery_method_table:
  "(let q = [CHR 0x22];
        document = (\<lambda>name ident args.
            ''\<newline>    mutation webhookSubscription {\<newline>      '' @ name @ ''('' @ ident @
            '', webhookSubscription: '' @ args @
            '') {\<newline>        userErrors {\<newline>          field\<newline>          message\<newline>        }\<newline>        webhookSubscription {\<newline>          id\<newline>        }\<newline>      }\<newline>    }\<newline>  '');
        suffix = (case webhookId of
                    None \<Rightarrow> ''Create''
                  | Some i \<Rightarrow> if i = [] then ''Create'' else ''Update'');
        ident = (case webhookId of
                   None \<Rightarrow> ''topic: '' @ topic
                 | Some i \<Rightarrow> if i = [] then ''topic: '' @ topic else ''id: '' @ q @ i @ q);
        rest = (if take 9 address = ''pubsub://'' then drop 9 address else address);
        project = takeWhile (\<lambda>c. c \<noteq> CHR '':'') rest;
        after = dropWhile (\<lambda>c. c \<noteq> CHR '':'') rest;
        pubsub_topic = (if after = [] then ''undefined''
                        else takeWhile (\<lambda>c. c \<noteq> CHR '':'') (tl after))
    in buildQuery imp ctx topic address deliveryMethod webhookId =
         (if deliveryMethod = Some PubSub \<and> \<not> versionCompatible imp ctx (July21 imp)
          then Inl (UnsupportedClientType
                      (''Pub/Sub webhooks are not supported in API version '' @ q @
                       API_VERSION ctx @ q @ ''.''))
          else Inr (document
                      ((case deliveryMethod of
                          None \<Rightarrow> ''webhookSubscription''
                        | Some Http \<Rightarrow> ''webhookSubscription''
                        | Some EventBridge \<Rightarrow> ''eventBridgeWebhookSubscription''
                        | Some PubSub \<Rightarrow> ''pubSubWebhookSubscription'') @ suffix)
                      ident
                      (case deliveryMethod of
                         None \<Rightarrow> ''{callbackUrl: '' @ q @ address @ q @ ''}''
                       | Some Http \<Rightarrow> ''{callbackUrl: '' @ q @ address @ q @ ''}''
                       | Some EventBridge \<Rightarrow> ''{arn: '' @ q @ address @ q @ ''}''
                       | Some PubSub \<Rightarrow>
                           ''{pubSubProject: '' @ q @ project @ q @
                           '',\<newline>                                  pubSubTopic: '' @ q @ pubsub_topic @ q @ ''}'')))
       \<and> (CHR '':'' \<notin> set p \<and> CHR '':'' \<notin> set t \<and> versionCompatible imp ctx (July21 imp) \<longrightarrow>
            buildQuery imp ctx topic (''pubsub://'' @ p @ '':'' @ t) (Some PubSub) webhookId =
              Inr (document (''pubSubWebhookSubscription'' @ suffix) ident
                     (''{pubSubProject: '' @ q @ p @ q @
                      '',\<newline>                                  pubSubTopic: '' @ q @ t @ q @ ''}''))))"
proof -
  have v: "validateDeliveryMethod imp ctx m =
             (if m = PubSub \<and> \<not> versionCompatible imp ctx (July21 imp)
              then Inl (UnsupportedClientType
                          (''Pub/Sub webhooks are not supported in API version '' @ [CHR 0x22] @
                           API_VERSION ctx @ [CHR 0x22] @ ''.''))
              else Inr ())" for m
    by (simp add: validateDeliveryMethod_def versionSupportsPubSub_def dq_def)
  have n: "mutationName m webhookId =
             (case m of
                Http \<Rightarrow> ''webhookSubscription''
              | EventBridge \<Rightarrow> ''eventBridgeWebhookSubscription''
              | PubSub \<Rightarrow> ''pubSubWebhookSubscription'') @
             (case webhookId of
                None \<Rightarrow> ''Create''
              | Some i \<Rightarrow> if i = [] then ''Create'' else ''Update'')" for m
    by (simp add: mutationName_def truthy_string_def split: DeliveryMethod.splits option.splits)
  have i: "identifier_arg topic webhookId =
             (case webhookId of
                None \<Rightarrow> ''topic: '' @ topic
              | Some i \<Rightarrow> if i = [] then ''topic: '' @ topic else ''id: '' @ [CHR 0x22] @ i @ [CHR 0x22])"
    by (simp add: identifier_arg_def truthy_string_def interpolate_def dq_def split: option.splits)
  have b: "buildQuery imp ctx topic a deliveryMethod webhookId =
             (case validateDeliveryMethod imp ctx (default_method deliveryMethod) of
                Inl e \<Rightarrow> Inl e
              | Inr u \<Rightarrow>
                  Inr (mutation_document (mutationName (default_method deliveryMethod) webhookId)
                         (identifier_arg topic webhookId)
                         (webhookSubscriptionArgs (default_method deliveryMethod) a)))"
    for a deliveryMethod
    by (simp add: buildQuery_def Let_def)
  have first: "buildQuery imp ctx topic address deliveryMethod webhookId =
         (if deliveryMethod = Some PubSub \<and> \<not> versionCompatible imp ctx (July21 imp)
          then Inl (UnsupportedClientType
                      (''Pub/Sub webhooks are not supported in API version '' @ [CHR 0x22] @
                       API_VERSION ctx @ [CHR 0x22] @ ''.''))
          else Inr (mutation_document (mutationName (default_method deliveryMethod) webhookId)
                         (identifier_arg topic webhookId)
                         (webhookSubscriptionArgs (default_method deliveryMethod) address)))"
    unfolding b v by (cases deliveryMethod) (auto simp: default_method_def)
  have second: "buildQuery imp ctx topic (''pubsub://'' @ p @ '':'' @ t) (Some PubSub) webhookId =
          Inr (mutation_document (mutationName PubSub webhookId) (identifier_arg topic webhookId)
                 (''{pubSubProject: '' @ [CHR 0x22] @ p @ [CHR 0x22] @
                  '',\<newline>                                  pubSubTopic: '' @ [CHR 0x22] @ t @ [CHR 0x22] @ ''}''))"
    if "CHR '':'' \<notin> set p \<and> CHR '':'' \<notin> set t \<and> versionCompatible imp ctx (July21 imp)"
    unfolding b v using that pubsub_address_parts [of p t]
    by (simp add: default_method_def webhookSubscriptionArgs_def element_def interpolate_def
        dq_def nl_def)
  show ?thesis
    unfolding Let_def
    using first second
    by (simp add: n i mutation_document_text webhookSubscriptionArgs_text Let_def default_method_def
        split: option.splits DeliveryMethod.splits)
qed

theorem buildQuery_method_table_witness:
  "CHR '':'' \<notin> set ''my-project'' \<and> CHR '':'' \<notin> set ''my-topic''
   \<and> versionCompatible example_imports example_context (July21 example_imports)
   \<and> buildQuery example_imports example_context ''ORDERS_CREATE''
        (''pubsub://'' @ ''my-project'' @ '':'' @ ''my-topic'') (Some PubSub)
        (Some ''gid://shopify/WebhookSubscription/1'') =
      Inr (''\<newline>    mutation webhookSubscription {\<newline>      pubSubWebhookSubscriptionUpdate(id: '' @
           [CHR 0x22] @ ''gid://shopify/WebhookSubscription/1'' @ [CHR 0x22] @
           '', webhookSubscription: {pubSubProject: '' @ [CHR 0x22] @ ''my-project'' @ [CHR 0x22] @
           '',\<newline>                                  pubSubTopic: '' @ [CHR 0x22] @ ''my-topic'' @ [CHR 0x22] @
           ''}) {\<newline>        userErrors {\<newline>          field\<newline>          message\<newline>        }\<newline>        webhookSubscription {\<newline>          id\<newline>        }\<newline>      }\<newline>    }\<newline>  '')"
proof -
  have c: "CHR '':'' \<notin> set ''my-project'' \<and> CHR '':'' \<notin> set ''my-topic''"
    by simp
  have v: "versionCompatible example_imports example_context (July21 example_imports)"
    by (simp add: example_imports_def example_context_def)
  show ?thesis
    using c v
      buildQuery_method_table [where deliveryMethod = "Some PubSub" and imp = example_imports
        and ctx = example_context and topic = "''ORDERS_CREATE''"
        and webhookId = "Some ''gid://shopify/WebhookSubscription/1''"
        and p = "''my-project''" and t = "''my-topic''"]
    by (simp add: Let_def)
qed

section \<open>Properties of registration\<close>

text \<open>
  Claim C5. A registration with delivery method PubSub while the configured version does
  not support Pub/Sub (\<^verbatim>\<open>versionCompatible\<close> of the July 2021 version is false) fails with
  \<^verbatim>\<open>UnsupportedClientType\<close> and leaves the network as it was: no document has been sent,
  neither the check query nor a mutation.
\<close>

theorem register_pubsub_below_cutoff:
  assumes "\<not> versionCompatible imp ctx (July21 imp)"
  shows "register imp ctx new_client pth topic accessToken shop (Some PubSub) s =
           (Inl (UnsupportedClientType
                   (''Pub/Sub webhooks are not supported in API version '' @ dq @ API_VERSION ctx @ dq @ ''.'')),
            s)
         \<and> calls (snd (register imp ctx new_client pth topic accessToken shop (Some PubSub) s)) = calls s"
  using assms
  by (simp add: register_def default_method_def validateDeliveryMethod_def versionSupportsPubSub_def)

theorem register_pubsub_below_cutoff_witness:
  "\<not> versionCompatible example_imports old_context (July21 example_imports)
   \<and> fst (register example_imports old_context scripted_client ''pubsub://my-project:my-topic''
            ''ORDERS_CREATE'' ''token'' ''shop.example.com'' (Some PubSub) pubsub_subscribed) =
       Inl (UnsupportedClientType (''Pub/Sub webhooks are not supported in API version '' @ dq @ ''2021-04'' @ dq @ ''.''))
   \<and> calls (snd (register example_imports old_context scripted_client ''pubsub://my-project:my-topic''
            ''ORDERS_CREATE'' ''token'' ''shop.example.com'' (Some PubSub) pubsub_subscribed)) = []"
proof -
  have old: "\<not> versionCompatible example_imports old_context (July21 example_imports)"
    by (simp add: example_imports_def old_context_def)
  show ?thesis
    using old register_pubsub_below_cutoff [OF old, of scripted_client "''pubsub://my-project:my-topic''"
        "''ORDERS_CREATE''" "''token''" "''shop.example.com''" pubsub_subscribed]
    by (simp add: old_context_def pubsub_subscribed_def)
qed

text \<open>
  Once validation has passed and the check query has been answered, \<^verbatim>\<open>register\<close> is
  determined by what \<^verbatim>\<open>read_check\<close> finds.
\<close>

lemma register_after_check:
  assumes "deliveryMethod = Some PubSub \<longrightarrow> versionSupportsPubSub imp ctx"
    and "client = new_client shop accessToken"
    and "query_check client (buildCheckQuery imp ctx topic) (remote s) = (Inr edges, r1)"
    and "m = default_method deliveryMethod"
    and "address = target_address ctx m pth"
    and "s1 = \<lparr>calls = calls s @ [buildCheckQuery imp ctx topic], remote = r1\<rparr>"
  shows "register imp ctx new_client pth topic accessToken shop deliveryMethod s =
     (case read_check edges address of
           (webhookId, mustRegister) \<Rightarrow>
             if mustRegister then
               (case send client
                       (mutation_document (mutationName m webhookId) (identifier_arg topic webhookId)
                          (webhookSubscriptionArgs m address)) s1 of
                  (Inl e, s2) \<Rightarrow> (Inl e, s2)
                | (Inr b, s2) \<Rightarrow>
                    (case isSuccess b m webhookId of
                       Inl e \<Rightarrow> (Inl e, s2)
                     | Inr ok \<Rightarrow> (Inr [(topic, \<lparr>success = ok, result = b\<rparr>)], s2)))
             else (Inr [(topic, \<lparr>success = True, result = JObj []\<rparr>)], s1))"
proof -
  have v: "validateDeliveryMethod imp ctx m = Inr ()"
    using assms(1,4) by (simp add: validate_passes)
  have c: "send_check client (buildCheckQuery imp ctx topic) s = (Inr edges, s1)"
    using assms(3,6) by (simp add: send_check_def)
  have b: "buildQuery imp ctx topic address (Some m) webhookId =
             Inr (mutation_document (mutationName m webhookId) (identifier_arg topic webhookId)
                          (webhookSubscriptionArgs m address))" for webhookId
    by (simp add: buildQuery_def default_method_Some v)
  show ?thesis
    unfolding register_def Let_def assms(2,4,5) [symmetric] v
    by (simp add: c b split: prod.splits)
qed

lemma calls_after_mutation:
  "calls (snd (case send client doc s1 of
                 (Inl e, s2) \<Rightarrow> (Inl e, s2)
               | (Inr b, s2) \<Rightarrow>
                   (case k b of Inl e \<Rightarrow> (Inl e, s2) | Inr ok \<Rightarrow> (Inr (r ok b), s2)))) =
   calls s1 @ [doc]"
  by (simp add: send_def split: prod.splits sum.splits)

lemma register_update_documents:
  assumes "deliveryMethod = Some PubSub \<longrightarrow> versionSupportsPubSub imp ctx"
    and "query_check (new_client shop accessToken) (buildCheckQuery imp ctx topic) (remote s) =
           (Inr (Node i ep # others), r1)"
    and "i \<noteq> []"
    and "address = target_address ctx (default_method deliveryMethod) pth"
    and "case ep of
           WebhookHttpEndpoint url \<Rightarrow> url \<noteq> address
         | WebhookEventBridgeEndpoint a \<Rightarrow> a \<noteq> address
         | WebhookPubSubEndpoint p t \<Rightarrow> ''pubsub://'' @ p @ '':'' @ t \<noteq> address \<and> address \<noteq> []"
  shows "calls (snd (register imp ctx new_client pth topic accessToken shop deliveryMethod s)) =
           calls s @
           [buildCheckQuery imp ctx topic,
            mutation_document (mutationName (default_method deliveryMethod) (Some i))
              (identifier_arg topic (Some i))
              (webhookSubscriptionArgs (default_method deliveryMethod) address)]"
proof -
  have rc: "read_check (Node i ep # others) address = (Some i, True)"
    using assms(5) by (cases ep) (auto simp: read_check_def)
  have "register imp ctx new_client pth topic accessToken shop deliveryMethod s =
     (case send (new_client shop accessToken)
             (mutation_document (mutationName (default_method deliveryMethod) (Some i))
                (identifier_arg topic (Some i))
                (webhookSubscriptionArgs (default_method deliveryMethod) address))
             \<lparr>calls = calls s @ [buildCheckQuery imp ctx topic], remote = r1\<rparr> of
        (Inl e, s2) \<Rightarrow> (Inl e, s2)
      | (Inr b, s2) \<Rightarrow>
          (case isSuccess b (default_method deliveryMethod) (Some i) of
             Inl e \<Rightarrow> (Inl e, s2)
           | Inr ok \<Rightarrow> (Inr [(topic, \<lparr>success = ok, result = b\<rparr>)], s2)))"
    using register_after_check [where new_client = new_client and shop = shop
        and accessToken = accessToken, OF assms(1) refl assms(2) refl assms(4) refl] rc by simp
  then show ?thesis
    by (simp only: calls_after_mutation) simp
qed

text \<open>
  Claim C6, as stated, fails when the reported subscription has an empty id: the id is
  tested for truthiness, so \<^verbatim>\<open>register\<close> sends the create mutation, identified by the
  topic, although the subscription exists and points at another address.
\<close>

theorem register_empty_id_sends_create:
  "query_check (scripted_client ''shop.example.com'' ''token'')
       (buildCheckQuery example_imports example_context ''ORDERS_CREATE'')
       (remote http_empty_id) =
     (Inr [Node [] (WebhookHttpEndpoint ''https://old.example.com/webhooks'')],
      \<lparr>check_replies = [],
         replies = [Inr (subscription_payload ''webhookSubscriptionCreate'')]\<rparr>)
   \<and> calls (snd (register example_imports example_context scripted_client ''/webhooks''
                     ''ORDERS_CREATE'' ''token'' ''shop.example.com'' None http_empty_id)) =
       [buildCheckQuery example_imports example_context ''ORDERS_CREATE'',
        ''\<newline>    mutation webhookSubscription {\<newline>      webhookSubscriptionCreate(topic: ORDERS_CREATE, webhookSubscription: {callbackUrl: '' @
        [CHR 0x22] @ ''https://app.example.com/webhooks'' @ [CHR 0x22] @
        ''}) {\<newline>        userErrors {\<newline>          field\<newline>          message\<newline>        }\<newline>        webhookSubscription {\<newline>          id\<newline>        }\<newline>      }\<newline>    }\<newline>  '']"
  by code_simp

text \<open>
  Claim C6, amended. When the check query reports a subscription with a non-empty id whose
  address (callback URL, ARN, or \<^verbatim>\<open>pubsub://project:topic\<close>) differs from the target address,
  \<^verbatim>\<open>register\<close> sends exactly two documents: the check query and then one mutation, which
  is the method's update mutation identified by the id found; the document is given here
  as text. Nothing is said about a Pub/Sub subscription when the target address is empty.
\<close>

theorem register_updates_when_address_differs:
  assumes "deliveryMethod = Some PubSub \<longrightarrow> versionCompatible imp ctx (July21 imp)"
    and "query_check (new_client shop accessToken) (buildCheckQuery imp ctx topic) (remote s) =
           (Inr (Node i ep # others), r1)"
    and "i \<noteq> []"
    and "address =
           (case deliveryMethod of
              None \<Rightarrow> ''https://'' @ HOST_NAME ctx @ pth
            | Some Http \<Rightarrow> ''https://'' @ HOST_NAME ctx @ pth
            | Some EventBridge \<Rightarrow> pth
            | Some PubSub \<Rightarrow> pth)"
    and "case ep of
           WebhookHttpEndpoint url \<Rightarrow> url \<noteq> address
         | WebhookEventBridgeEndpoint a \<Rightarrow> a \<noteq> address
         | WebhookPubSubEndpoint p t \<Rightarrow> ''pubsub://'' @ p @ '':'' @ t \<noteq> address \<and> address \<noteq> []"
  shows
    "(let q = [CHR 0x22];
          document = (\<lambda>name ident args.
              ''\<newline>    mutation webhookSubscription {\<newline>      '' @ name @ ''('' @ ident @
              '', webhookSubscription: '' @ args @
              '') {\<newline>        userErrors {\<newline>          field\<newline>          message\<newline>        }\<newline>        webhookSubscription {\<newline>          id\<newline>        }\<newline>      }\<newline>    }\<newline>  '');
          rest = (if take 9 address = ''pubsub://'' then drop 9 address else address);
          project = takeWhile (\<lambda>c. c \<noteq> CHR '':'') rest;
          after = dropWhile (\<lambda>c. c \<noteq> CHR '':'') rest;
          pubsub_topic = (if after = [] then ''undefined''
                          else takeWhile (\<lambda>c. c \<noteq> CHR '':'') (tl after))
      in calls (snd (register imp ctx new_client pth topic accessToken shop deliveryMethod s)) =
           calls s @
           [buildCheckQuery imp ctx topic,
            document
              (case deliveryMethod of
                 None \<Rightarrow> ''webhookSubscriptionUpdate''
               | Some Http \<Rightarrow> ''webhookSubscriptionUpdate''
               | Some EventBridge \<Rightarrow> ''eventBridgeWebhookSubscriptionUpdate''
               | Some PubSub \<Rightarrow> ''pubSubWebhookSubscriptionUpdate'')
              (''id: '' @ q @ i @ q)
              (case deliveryMethod of
                 None \<Rightarrow> ''{callbackUrl: '' @ q @ address @ q @ ''}''
               | Some Http \<Rightarrow> ''{callbackUrl: '' @ q @ address @ q @ ''}''
               | Some EventBridge \<Rightarrow> ''{arn: '' @ q @ address @ q @ ''}''
               | Some PubSub \<Rightarrow>
                   ''{pubSubProject: '' @ q @ project @ q @
                   '',\<newline>                                  pubSubTopic: '' @ q @ pubsub_topic @ q @ ''}'')])"
proof -
  have v: "deliveryMethod = Some PubSub \<longrightarrow> versionSupportsPubSub imp ctx"
    using assms(1) by (simp add: versionSupportsPubSub_def)
  have a: "address = target_address ctx (default_method deliveryMethod) pth"
    using assms(4)
    by (simp add: target_address_def default_method_def split: option.splits DeliveryMethod.splits)
  have n: "mutationName (default_method deliveryMethod) (Some i) =
             (case deliveryMethod of
                 None \<Rightarrow> ''webhookSubscriptionUpdate''
               | Some Http \<Rightarrow> ''webhookSubscriptionUpdate''
               | Some EventBridge \<Rightarrow> ''eventBridgeWebhookSubscriptionUpdate''
               | Some PubSub \<Rightarrow> ''pubSubWebhookSubscriptionUpdate'')"
    using assms(3)
    by (simp add: mutationName_def truthy_string_def default_method_def
        split: option.splits DeliveryMethod.splits)
  have d: "identifier_arg topic (Some i) = ''id: '' @ [CHR 0x22] @ i @ [CHR 0x22]"
    using assms(3) by (simp add: identifier_arg_def truthy_string_def interpolate_def dq_def)
  show ?thesis
    unfolding Let_def
      register_update_documents [where new_client = new_client and shop = shop
        and accessToken = accessToken, OF v assms(2,3) a assms(5)] n d
      mutation_document_text webhookSubscriptionArgs_text
    by (simp add: default_method_def Let_def split: option.splits DeliveryMethod.splits)
qed

theorem register_updates_when_address_differs_witness:
  "query_check (scripted_client ''shop.example.com'' ''token'')
       (buildCheckQuery example_imports example_context ''ORDERS_CREATE'')
       (remote http_subscribed_elsewhere) =
     (Inr [Node ''gid://shopify/WebhookSubscription/1''
             (WebhookHttpEndpoint ''https://old.example.com/webhooks'')],
      \<lparr>check_replies = [],
         replies = [Inr (subscription_payload ''webhookSubscriptionUpdate'')]\<rparr>)
   \<and> ''gid://shopify/WebhookSubscription/1'' \<noteq> []
   \<and> ''https://app.example.com/webhooks'' = ''https://'' @ HOST_NAME example_context @ ''/webhooks''
   \<and> ''https://old.example.com/webhooks'' \<noteq> ''https://app.example.com/webhooks''
   \<and> calls (snd (register example_imports example_context scripted_client ''/webhooks''
                     ''ORDERS_CREATE'' ''token'' ''shop.example.com'' None http_subscribed_elsewhere)) =
       [buildCheckQuery example_imports example_context ''ORDERS_CREATE'',
        ''\<newline>    mutation webhookSubscription {\<newline>      webhookSubscriptionUpdate(id: '' @
        [CHR 0x22] @ ''gid://shopify/WebhookSubscription/1'' @ [CHR 0x22] @
        '', webhookSubscription: {callbackUrl: '' @
        [CHR 0x22] @ ''https://app.example.com/webhooks'' @ [CHR 0x22] @
        ''}) {\<newline>        userErrors {\<newline>          field\<newline>          message\<newline>        }\<newline>        webhookSubscription {\<newline>          id\<newline>        }\<newline>      }\<newline>    }\<newline>  '']"
proof -
  have q: "query_check (scripted_client ''shop.example.com'' ''token'')
       (buildCheckQuery example_imports example_context ''ORDERS_CREATE'')
       (remote http_subscribed_elsewhere) =
     (Inr (Node ''gid://shopify/WebhookSubscription/1''
             (WebhookHttpEndpoint ''https://old.example.com/webhooks'') # []),
      \<lparr>check_replies = [],
         replies = [Inr (subscription_payload ''webhookSubscriptionUpdate'')]\<rparr>)"
    by (simp add: scripted_client_def http_subscribed_elsewhere_def)
  have i: "''gid://shopify/WebhookSubscription/1'' \<noteq> []"
    by simp
  have h: "''https://app.example.com/webhooks'' = ''https://'' @ HOST_NAME example_context @ ''/webhooks''"
    by (simp add: example_context_def)
  then have a: "''https://app.example.com/webhooks'' =
           (case None :: DeliveryMethod option of
              None \<Rightarrow> ''https://'' @ HOST_NAME example_context @ ''/webhooks''
            | Some Http \<Rightarrow> ''https://'' @ HOST_NAME example_context @ ''/webhooks''
            | Some EventBridge \<Rightarrow> ''/webhooks''
            | Some PubSub \<Rightarrow> ''/webhooks'')"
    by simp
  have m: "(None :: DeliveryMethod option) = Some PubSub \<longrightarrow>
           versionCompatible example_imports example_context (July21 example_imports)"
    by simp
  have n: "''https://old.example.com/webhooks'' \<noteq> ''https://app.example.com/webhooks''"
    by simp
  then have d: "case WebhookHttpEndpoint ''https://old.example.com/webhooks'' of
              WebhookHttpEndpoint url \<Rightarrow> url \<noteq> ''https://app.example.com/webhooks''
            | WebhookEventBridgeEndpoint a \<Rightarrow> a \<noteq> ''https://app.example.com/webhooks''
            | WebhookPubSubEndpoint p t \<Rightarrow>
                ''pubsub://'' @ p @ '':'' @ t \<noteq> ''https://app.example.com/webhooks'' \<and>
                ''https://app.example.com/webhooks'' \<noteq> []"
    by simp
  have e: "calls http_subscribed_elsewhere = []"
    by (simp add: http_subscribed_elsewhere_def)
  have c: "calls (snd (register example_imports example_context scripted_client ''/webhooks''
                     ''ORDERS_CREATE'' ''token'' ''shop.example.com'' None http_subscribed_elsewhere)) =
       [buildCheckQuery example_imports example_context ''ORDERS_CREATE'',
        ''\<newline>    mutation webhookSubscription {\<newline>      webhookSubscriptionUpdate(id: '' @
        [CHR 0x22] @ ''gid://shopify/WebhookSubscription/1'' @ [CHR 0x22] @
        '', webhookSubscription: {callbackUrl: '' @
        [CHR 0x22] @ ''https://app.example.com/webhooks'' @ [CHR 0x22] @
        ''}) {\<newline>        userErrors {\<newline>          field\<newline>          message\<newline>        }\<newline>        webhookSubscription {\<newline>          id\<newline>        }\<newline>      }\<newline>    }\<newline>  '']"
    using register_updates_when_address_differs
        [where new_client = scripted_client and shop = "''shop.example.com''"
          and accessToken = "''token''", OF m q i a d]
    by (simp add: Let_def e)
  show ?thesis
    by (intro conjI q [simplified] i h n c)
qed

text \<open>
  The sibling paths of the one that Claim C1 is about: a reported callback or EventBridge
  subscription at the target address makes \<^verbatim>\<open>register\<close> skip the mutation.
\<close>

lemma register_skips_when_address_matches:
  assumes "deliveryMethod = Some PubSub \<longrightarrow> versionSupportsPubSub imp ctx"
    and "query_check (new_client shop accessToken) (buildCheckQuery imp ctx topic) (remote s) =
           (Inr (Node i ep # others), r1)"
    and "address = target_address ctx (default_method deliveryMethod) pth"
    and "ep = WebhookHttpEndpoint address \<or> ep = WebhookEventBridgeEndpoint address"
  shows "register imp ctx new_client pth topic accessToken shop deliveryMethod s =
           (Inr [(topic, \<lparr>success = True, result = JObj []\<rparr>)],
            \<lparr>calls = calls s @ [buildCheckQuery imp ctx topic], remote = r1\<rparr>)"
proof -
  have "read_check (Node i ep # others) address = (Some i, False)"
    using assms(4) by (auto simp: read_check_def)
  then show ?thesis
    using register_after_check [where new_client = new_client and shop = shop
        and accessToken = accessToken, OF assms(1) refl assms(2) refl assms(3) refl]
    by simp
qed

text \<open>
  Claim C1, at an input where the code departs from it: the same Pub/Sub registration
  made twice. The first call finds no subscription and sends the create mutation. For
  the second call the remote reports the Pub/Sub subscription to project \<^verbatim>\<open>my-project\<close>
  and topic \<^verbatim>\<open>my-topic\<close>, and the target address is \<^verbatim>\<open>pubsub://my-project:my-topic\<close>, the
  same endpoint. \<^verbatim>\<open>register\<close> reads the address of a Pub/Sub endpoint as the empty string,
  so it does not skip: it sends the check query and then the update mutation. Two
  mutations have been sent in total.
\<close>

theorem register_pubsub_twice_sends_two_mutations:
  "register example_imports example_context scripted_client ''pubsub://my-project:my-topic''
     ''ORDERS_CREATE'' ''token'' ''shop.example.com'' (Some PubSub) pubsub_unsubscribed =
   (Inr [(''ORDERS_CREATE'',
          \<lparr>success = True, result = subscription_payload ''pubSubWebhookSubscriptionCreate''\<rparr>)],
    \<lparr>calls =
       [buildCheckQuery example_imports example_context ''ORDERS_CREATE'',
        mutation_document ''pubSubWebhookSubscriptionCreate'' ''topic: ORDERS_CREATE''
          (''{pubSubProject: '' @ dq @ ''my-project'' @ dq @ '','' @ nl @
           ''                                  pubSubTopic: '' @ dq @ ''my-topic'' @ dq @ ''}'')],
     remote = remote pubsub_subscribed\<rparr>)
   \<and> register example_imports example_context scripted_client ''pubsub://my-project:my-topic''
       ''ORDERS_CREATE'' ''token'' ''shop.example.com'' (Some PubSub)
       \<lparr>calls =
          [buildCheckQuery example_imports example_context ''ORDERS_CREATE'',
           mutation_document ''pubSubWebhookSubscriptionCreate'' ''topic: ORDERS_CREATE''
             (''{pubSubProject: '' @ dq @ ''my-project'' @ dq @ '','' @ nl @
              ''                                  pubSubTopic: '' @ dq @ ''my-topic'' @ dq @ ''}'')],
        remote = remote pubsub_subscribed\<rparr> =
     (Inr [(''ORDERS_CREATE'',
            \<lparr>success = True, result = subscription_payload ''pubSubWebhookSubscriptionUpdate''\<rparr>)],
      \<lparr>calls =
         [buildCheckQuery example_imports example_context ''ORDERS_CREATE'',
          mutation_document ''pubSubWebhookSubscriptionCreate'' ''topic: ORDERS_CREATE''
            (''{pubSubProject: '' @ dq @ ''my-project'' @ dq @ '','' @ nl @
             ''                                  pubSubTopic: '' @ dq @ ''my-topic'' @ dq @ ''}''),
          buildCheckQuery example_imports example_context ''ORDERS_CREATE'',
          mutation_document ''pubSubWebhookSubscriptionUpdate''
            (''id: '' @ dq @ ''gid://shopify/WebhookSubscription/1'' @ dq)
            (''{pubSubProject: '' @ dq @ ''my-project'' @ dq @ '','' @ nl @
             ''                                  pubSubTopic: '' @ dq @ ''my-topic'' @ dq @ ''}'')],
       remote = \<lparr>check_replies = [], replies = []\<rparr>\<rparr>)"
  by code_simp

text \<open>
  Claim C4, as stated, fails: with three topics in the table and a transport that
  rejects the second topic's mutation, \<^verbatim>\<open>registerAll\<close> rejects with the transport's error.
  No mapping is returned, and nothing is sent for the third topic.
\<close>

theorem registerAll_rejection_aborts:
  "registerAll example_imports example_context scripted_client three_topics ''token''
     ''shop.example.com'' None second_mutation_rejects =
   (Inl (Thrown (JStr ''network error'')),
    \<lparr>calls =
       [buildCheckQuery example_imports example_context ''ORDERS_CREATE'',
        mutation_document ''webhookSubscriptionCreate'' ''topic: ORDERS_CREATE''
          (webhookSubscriptionArgs Http ''https://app.example.com/webhooks/orders''),
        buildCheckQuery example_imports example_context ''PRODUCTS_UPDATE'',
        mutation_document ''webhookSubscriptionCreate'' ''topic: PRODUCTS_UPDATE''
          (webhookSubscriptionArgs Http ''https://app.example.com/webhooks/products'')],
     remote =
       \<lparr>check_replies = [Inr []],
          replies = [Inr (subscription_payload ''webhookSubscriptionCreate'')]\<rparr>\<rparr>)"
  by code_simp

lemma register_resolves_with_one_outcome:
  assumes "register imp ctx new_client pth topic accessToken shop deliveryMethod s = (Inr ret, s1)"
  shows "\<exists>r. ret = [(topic, r)]"
  using assms unfolding register_def Let_def
  by (auto split: sum.splits prod.splits if_splits)

lemma registerAll_loop_keys:
  "registerAll_loop imp ctx new_client reg accessToken shop m topics acc s = (Inr ret, s1) \<Longrightarrow>
   fst ` set ret = fst ` set acc \<union> {t \<in> set topics. getHandler reg t \<noteq> None}"
proof (induction topics arbitrary: acc s)
  case Nil
  then show ?case by simp
next
  case (Cons topic topics)
  show ?case
  proof (cases "getHandler reg topic")
    case None
    with Cons.prems
    have "registerAll_loop imp ctx new_client reg accessToken shop m topics acc s = (Inr ret, s1)"
      by simp
    from Cons.IH [OF this] None show ?thesis by auto
  next
    case (Some handler)
    obtain res s2 where r: "register imp ctx new_client (path handler) topic accessToken shop (Some m) s = (res, s2)"
      by (cases "register imp ctx new_client (path handler) topic accessToken shop (Some m) s")
    show ?thesis
    proof (cases res)
      case (Inl e)
      with Cons.prems Some r show ?thesis by simp
    next
      case (Inr returned)
      with r register_resolves_with_one_outcome obtain outcome where o: "returned = [(topic, outcome)]"
        by blast
      with Cons.prems Some r Inr
      have "registerAll_loop imp ctx new_client reg accessToken shop m topics
              (AList.update topic outcome acc) s2 = (Inr ret, s1)"
        by simp
      from Cons.IH [OF this] Some show ?thesis
        by (auto simp: dom_update)
    qed
  qed
qed

lemma registerAll_loop_append:
  "registerAll_loop imp ctx new_client reg accessToken shop m (before @ later) acc s =
     (case registerAll_loop imp ctx new_client reg accessToken shop m before acc s of
        (Inl e, s1) \<Rightarrow> (Inl e, s1)
      | (Inr acc1, s1) \<Rightarrow> registerAll_loop imp ctx new_client reg accessToken shop m later acc1 s1)"
  by (induction before arbitrary: acc s) (auto split: option.splits prod.splits sum.splits)


text \<open>
  Claim C4, amended. \<^verbatim>\<open>registerAll\<close> registers the topics of the handler table one after
  the other. When it resolves, the mapping has an outcome for every topic of the table,
  also for a topic whose mutation result reports no subscription. When the registration
  of a topic rejects, after the topics before it have resolved, \<^verbatim>\<open>registerAll\<close> rejects
  with the same error in the state that registration left: the later topics are not
  processed.
\<close>

theorem registerAll_outcomes_unless_rejected:
  "(registerAll imp ctx new_client reg accessToken shop deliveryMethod s = (Inr registerReturn, s1) \<longrightarrow>
      fst ` set registerReturn = set (getTopics reg))
   \<and> (getTopics reg = before @ topic # later
        \<and> registerAll_loop imp ctx new_client reg accessToken shop (default_method deliveryMethod)
              before [] s = (Inr acc, s2)
        \<and> getHandler reg topic = Some handler
        \<and> register imp ctx new_client (path handler) topic accessToken shop
              (Some (default_method deliveryMethod)) s2 = (Inl e, s3) \<longrightarrow>
      registerAll imp ctx new_client reg accessToken shop deliveryMethod s = (Inl e, s3))"
proof (intro conjI impI)
  assume "registerAll imp ctx new_client reg accessToken shop deliveryMethod s = (Inr registerReturn, s1)"
  then have "fst ` set registerReturn =
               fst ` set ([] :: RegisterReturn) \<union>
               {t \<in> set (getTopics reg). getHandler reg t \<noteq> None}"
    unfolding registerAll_def by (rule registerAll_loop_keys)
  moreover have "getHandler reg t \<noteq> None" if "t \<in> set (getTopics reg)" for t
    using that by (simp add: getTopics_def getHandler_def map_of_eq_None_iff)
  ultimately show "fst ` set registerReturn = set (getTopics reg)"
    by auto
next
  assume a: "getTopics reg = before @ topic # later
        \<and> registerAll_loop imp ctx new_client reg accessToken shop (default_method deliveryMethod)
              before [] s = (Inr acc, s2)
        \<and> getHandler reg topic = Some handler
        \<and> register imp ctx new_client (path handler) topic accessToken shop
              (Some (default_method deliveryMethod)) s2 = (Inl e, s3)"
  then show "registerAll imp ctx new_client reg accessToken shop deliveryMethod s = (Inl e, s3)"
    by (simp add: registerAll_def registerAll_loop_append)
qed

theorem registerAll_outcomes_unless_rejected_witness:
  "(case registerAll example_imports example_context scripted_client three_topics ''token''
           ''shop.example.com'' None second_mutation_fails of
      (Inr registerReturn, s1) \<Rightarrow>
        fst ` set registerReturn = {''ORDERS_CREATE'', ''PRODUCTS_UPDATE'', ''APP_UNINSTALLED''}
    | (Inl e, s1) \<Rightarrow> False)
   \<and> getTopics three_topics = [''ORDERS_CREATE''] @ ''PRODUCTS_UPDATE'' # [''APP_UNINSTALLED'']
   \<and> fst (registerAll_loop example_imports example_context scripted_client three_topics ''token''
             ''shop.example.com'' (default_method None) [''ORDERS_CREATE''] []
             second_mutation_rejects) =
       Inr [(''ORDERS_CREATE'',
             \<lparr>success = True, result = subscription_payload ''webhookSubscriptionCreate''\<rparr>)]
   \<and> getHandler three_topics ''PRODUCTS_UPDATE'' =
       Some \<lparr>path = ''/webhooks/products'', webhookHandler = quiet_handler\<rparr>
   \<and> fst (registerAll example_imports example_context scripted_client three_topics ''token''
             ''shop.example.com'' None second_mutation_rejects) =
       Inl (Thrown (JStr ''network error''))"
proof -
  let ?all = "\<lambda>s. registerAll example_imports example_context scripted_client three_topics
                 ''token'' ''shop.example.com'' None s"
  let ?first = "registerAll_loop example_imports example_context scripted_client three_topics
                 ''token'' ''shop.example.com'' (default_method None) [''ORDERS_CREATE''] []
                 second_mutation_rejects"
  let ?second = "register example_imports example_context scripted_client
                 (path \<lparr>path = ''/webhooks/products'', webhookHandler = quiet_handler\<rparr>)
                 ''PRODUCTS_UPDATE'' ''token'' ''shop.example.com'' (Some (default_method None))
                 (snd ?first)"
  have topics: "getTopics three_topics =
                  [''ORDERS_CREATE''] @ ''PRODUCTS_UPDATE'' # [''APP_UNINSTALLED'']"
    by (simp add: three_topics_def getTopics_def addHandler_def)
  have handler: "getHandler three_topics ''PRODUCTS_UPDATE'' =
                   Some \<lparr>path = ''/webhooks/products'', webhookHandler = quiet_handler\<rparr>"
    by (simp add: three_topics_def getHandler_def addHandler_def)
  have "\<not> isl (fst (?all second_mutation_fails))"
    by code_simp
  then obtain ret s1 where resolved: "?all second_mutation_fails = (Inr ret, s1)"
    by (cases "?all second_mutation_fails"; cases "fst (?all second_mutation_fails)") auto
  have keys: "fst ` set ret = set (getTopics three_topics)"
    using registerAll_outcomes_unless_rejected [where reg = three_topics] resolved by blast
  have c1: "(case ?all second_mutation_fails of
      (Inr registerReturn, s1) \<Rightarrow>
        fst ` set registerReturn = {''ORDERS_CREATE'', ''PRODUCTS_UPDATE'', ''APP_UNINSTALLED''}
    | (Inl e, s1) \<Rightarrow> False)"
    using resolved keys topics by auto
  have f1: "fst ?first =
          Inr [(''ORDERS_CREATE'',
                \<lparr>success = True, result = subscription_payload ''webhookSubscriptionCreate''\<rparr>)]"
    by code_simp
  then have first: "?first =
          (Inr [(''ORDERS_CREATE'',
                 \<lparr>success = True, result = subscription_payload ''webhookSubscriptionCreate''\<rparr>)],
           snd ?first)"
    by (simp add: prod_eq_iff)
  have "fst ?second = Inl (Thrown (JStr ''network error''))"
    by code_simp
  then have second: "?second = (Inl (Thrown (JStr ''network error'')), snd ?second)"
    by (simp add: prod_eq_iff)
  have "?all second_mutation_rejects = (Inl (Thrown (JStr ''network error'')), snd ?second)"
    using registerAll_outcomes_unless_rejected [where reg = three_topics and deliveryMethod = None
        and s = second_mutation_rejects] topics first handler second
    by blast
  then have c5: "fst (?all second_mutation_rejects) = Inl (Thrown (JStr ''network error''))"
    by simp
  show ?thesis
    by (intro conjI c1 topics f1 handler c5)
qed


section \<open>Properties of inbound processing\<close>

lemma toUpperCase_char_fixed:
  "\<not> (97 \<le> (of_char c :: nat) \<and> (of_char c :: nat) \<le> 122) \<Longrightarrow> toUpperCase_char c = c"
  by (auto simp: toUpperCase_char_def Let_def)





text \<open>
  What the header loop finds, when the three header names differ up to case: for each
  name, the value of the last pair whose name equals it up to case.
\<close>

lemma read_headers_last_match:
  assumes "distinct [toLowerCase imp (Hmac imp), toLowerCase imp (Topic imp),
                     toLowerCase imp (Domain imp)]"
  shows "read_headers imp hs (hmac, topic, domain) =
     (let found = map_of (rev (map (\<lambda>(header, v). (toLowerCase imp header, v)) hs)) in
      (case found (toLowerCase imp (Hmac imp)) of None \<Rightarrow> hmac | Some v \<Rightarrow> Some v,
       case found (toLowerCase imp (Topic imp)) of None \<Rightarrow> topic | Some v \<Rightarrow> Some v,
       case found (toLowerCase imp (Domain imp)) of None \<Rightarrow> domain | Some v \<Rightarrow> Some v))"
  using assms
proof (induction hs arbitrary: hmac topic domain)
  case Nil
  then show ?case by simp
next
  case (Cons x hs)
  obtain header v where x: "x = (header, v)" by (cases x)
  show ?case
    unfolding x using Cons.prems
    by (auto simp: Cons.IH [OF Cons.prems] Let_def map_add_def split: option.splits)
qed

lemma truthy_string_Some: "truthy_string (Some s) = (s \<noteq> [])"
  by (simp add: truthy_string_def)

lemma process_after_headers:
  assumes "body request = Some b" and "b \<noteq> []"
    and "read_headers imp (Request.headers request) (None, None, None) = (Some h, Some t, Some d)"
    and "h \<noteq> []" and "t \<noteq> []" and "d \<noteq> []"
  shows "process imp ctx reg request response w =
     (if safeCompare imp (createSHA256HMAC imp (API_SECRET_KEY ctx) b) h then
        (case getHandler reg (graphqlTopic imp t) of
           Some webhookEntry \<Rightarrow>
             (case webhookHandler webhookEntry (graphqlTopic imp t) d b w of
                (Resolved, w1) \<Rightarrow> (None, response\<lparr>statusCode := 200, headers := []\<rparr>, w1)
              | (Rejected v, w1) \<Rightarrow>
                  (if truthy v then Some (Thrown v) else None,
                   response\<lparr>statusCode := 500, headers := []\<rparr>, w1))
         | None \<Rightarrow>
             (Some (InvalidWebhookError (''No webhook is registered for topic '' @ t)),
              response\<lparr>statusCode := 403, headers := []\<rparr>, w))
      else
        (Some (InvalidWebhookError (''Could not validate request for topic '' @ t)),
         response\<lparr>statusCode := 403, headers := []\<rparr>, w))"
  using assms
  by (simp add: process_def Let_def truthy_string_def missingHeaders_def interpolate_def
      Ok_def Forbidden_def InternalServerError_def
      split: option.splits prod.splits settled.splits)

text \<open>
  Claim C3. A request with a body and with the three headers found non-empty, whose
  digest header does not compare equal to the digest of the raw body, makes \<^verbatim>\<open>process\<close>
  throw \<^verbatim>\<open>InvalidWebhookError\<close> with status 403, whatever the registry holds; the
  application's state is the one before the call, so no handler has run.
\<close>

theorem process_rejects_invalid_signature:
  assumes "body request = Some b" and "b \<noteq> []"
    and "read_headers imp (Request.headers request) (None, None, None) = (Some h, Some t, Some d)"
    and "h \<noteq> []" and "t \<noteq> []" and "d \<noteq> []"
    and "\<not> safeCompare imp (createSHA256HMAC imp (API_SECRET_KEY ctx) b) h"
  shows "process imp ctx reg request response w =
           (Some (InvalidWebhookError (''Could not validate request for topic '' @ t)),
            response\<lparr>statusCode := 403, headers := []\<rparr>, w)"
  by (simp add: process_after_headers [OF assms(1-6)] assms(7))


theorem process_rejects_invalid_signature_witness:
  "body forged_request = Some ''{id: 1}''
   \<and> read_headers example_imports (Request.headers forged_request) (None, None, None) =
       (Some ''forged'', Some ''orders/create'', Some ''shop.example.com'')
   \<and> \<not> safeCompare example_imports
           (createSHA256HMAC example_imports (API_SECRET_KEY example_context) ''{id: 1}'') ''forged''
   \<and> getHandler orders_registry (graphqlTopic example_imports ''orders/create'') =
       Some \<lparr>path = ''/webhooks'', webhookHandler = logging_handler\<rparr>
   \<and> process example_imports example_context orders_registry forged_request fresh_response [] =
       (Some (InvalidWebhookError ''Could not validate request for topic orders/create''),
        \<lparr>statusCode = 403, headers = []\<rparr>, [])"
proof -
  have b: "body forged_request = Some ''{id: 1}''"
    by (simp add: forged_request_def)
  have h: "read_headers example_imports (Request.headers forged_request) (None, None, None) =
       (Some ''forged'', Some ''orders/create'', Some ''shop.example.com'')"
    by code_simp
  have c: "\<not> safeCompare example_imports
           (createSHA256HMAC example_imports (API_SECRET_KEY example_context) ''{id: 1}'') ''forged''"
    by (simp add: example_imports_def)
  have t: "graphqlTopic example_imports ''orders/create'' = ''ORDERS_CREATE''"
    by code_simp
  have g: "getHandler orders_registry (graphqlTopic example_imports ''orders/create'') =
       Some \<lparr>path = ''/webhooks'', webhookHandler = logging_handler\<rparr>"
    unfolding t by (simp add: orders_registry_def addHandler_def getHandler_def)
  have "process example_imports example_context orders_registry forged_request fresh_response [] =
       (Some (InvalidWebhookError (''Could not validate request for topic '' @ ''orders/create'')),
        fresh_response\<lparr>statusCode := 403, headers := []\<rparr>, [])"
    by (rule process_rejects_invalid_signature [OF b _ h _ _ _ c]) simp_all
  then have p: "process example_imports example_context orders_registry forged_request fresh_response [] =
       (Some (InvalidWebhookError ''Could not validate request for topic orders/create''),
        \<lparr>statusCode = 403, headers = []\<rparr>, [])"
    by (simp add: fresh_response_def)
  show ?thesis
    by (intro conjI b h c g p)
qed

lemma process_without_body:
  assumes "\<not> truthy_string (body request)"
  shows "process imp ctx reg request response w =
           (Some (InvalidWebhookError ''No body was received when processing webhook''),
            response\<lparr>statusCode := 400\<rparr>, w)"
  using assms by (simp add: process_def BadRequest_def)

lemma process_with_missing_headers:
  assumes "truthy_string (body request)"
    and "read_headers imp (Request.headers request) (None, None, None) = (hmac, topic, domain)"
    and "\<not> truthy_string hmac \<or> \<not> truthy_string topic \<or> \<not> truthy_string domain"
  shows "process imp ctx reg request response w =
           (Some (InvalidWebhookError
              (''Missing one or more of the required HTTP headers to process webhooks: ['' @
               join '', '' (missingHeaders imp (hmac, topic, domain)) @ '']'')),
            response\<lparr>statusCode := 400\<rparr>, w)"
proof -
  have "missingHeaders imp (hmac, topic, domain) \<noteq> []"
    using assms(3) by (auto simp: missingHeaders_def)
  then show ?thesis
    using assms(1,2) by (simp add: process_def Let_def BadRequest_def)
qed

text \<open>
  Claim C9. A request with a body, for which at least one of the three headers is absent
  or empty, makes \<^verbatim>\<open>process\<close> set status 400 and throw \<^verbatim>\<open>InvalidWebhookError\<close> with a
  message that lists the names of all the missing headers, in the order Hmac, Topic,
  Domain, with a comma and a space between two names. When only the topic header is
  missing, the list is that one name.
\<close>

theorem process_lists_missing_headers:
  assumes "body request = Some b" and "b \<noteq> []"
    and "read_headers imp (Request.headers request) (None, None, None) = (hmac, topic, domain)"
    and "hmac \<in> {None, Some []} \<or> topic \<in> {None, Some []} \<or> domain \<in> {None, Some []}"
  shows
    "(let no_hmac = (hmac \<in> {None, Some []});
          no_topic = (topic \<in> {None, Some []});
          no_domain = (domain \<in> {None, Some []})
      in process imp ctx reg request response w =
           (Some (InvalidWebhookError
              (''Missing one or more of the required HTTP headers to process webhooks: ['' @
                 (if no_hmac then Hmac imp @ (if no_topic \<or> no_domain then '', '' else []) else []) @
                 (if no_topic then Topic imp @ (if no_domain then '', '' else []) else []) @
                 (if no_domain then Domain imp else []) @
               '']'')),
            response\<lparr>statusCode := 400\<rparr>, w)
         \<and> (\<not> no_hmac \<and> \<not> no_domain \<longrightarrow>
              fst (process imp ctx reg request response w) =
                Some (InvalidWebhookError (''Missing one or more of the required HTTP headers to process webhooks: ['' @ Topic imp @ '']''))))"
proof -
  have t: "truthy_string v = (v \<notin> {None, Some []})" for v
    by (cases v) (simp_all add: truthy_string_def)
  have b: "truthy_string (body request)"
    using assms(1,2) by (simp add: truthy_string_def)
  have m: "\<not> truthy_string hmac \<or> \<not> truthy_string topic \<or> \<not> truthy_string domain"
    using assms(4) unfolding t by blast
  have l: "join '', '' (missingHeaders imp (hmac, topic, domain)) =
             (if hmac \<in> {None, Some []}
              then Hmac imp @
                   (if topic \<in> {None, Some []} \<or> domain \<in> {None, Some []} then '', '' else [])
              else []) @
             (if topic \<in> {None, Some []}
              then Topic imp @ (if domain \<in> {None, Some []} then '', '' else [])
              else []) @
             (if domain \<in> {None, Some []} then Domain imp else [])"
    unfolding missingHeaders_def t by simp
  have p: "process imp ctx reg request response w =
           (Some (InvalidWebhookError
              (''Missing one or more of the required HTTP headers to process webhooks: ['' @
               join '', '' (missingHeaders imp (hmac, topic, domain)) @ '']'')),
            response\<lparr>statusCode := 400\<rparr>, w)"
    using b assms(3) m by (rule process_with_missing_headers)
  show ?thesis
    unfolding Let_def p l using assms(4) by auto
qed

theorem process_lists_missing_headers_witness:
  "body no_headers_request = Some ''{id: 1}'' \<and> ''{id: 1}'' \<noteq> []
   \<and> read_headers example_imports (Request.headers no_headers_request) (None, None, None) =
       (None, None, None)
   \<and> process example_imports example_context orders_registry no_headers_request fresh_response [] =
       (Some (InvalidWebhookError
          ''Missing one or more of the required HTTP headers to process webhooks: [X-Shopify-Hmac-Sha256, X-Shopify-Topic, X-Shopify-Shop-Domain]''),
        \<lparr>statusCode = 400, headers = [(''Content-Type'', ''text/plain'')]\<rparr>, [])
   \<and> body no_topic_request = Some ''{id: 1}''
   \<and> read_headers example_imports (Request.headers no_topic_request) (None, None, None) =
       (Some ''secret:{id: 1}'', None, Some ''shop.example.com'')
   \<and> process example_imports example_context orders_registry no_topic_request fresh_response [] =
       (Some (InvalidWebhookError
          ''Missing one or more of the required HTTP headers to process webhooks: [X-Shopify-Topic]''),
        \<lparr>statusCode = 400, headers = [(''Content-Type'', ''text/plain'')]\<rparr>, [])"
proof -
  have b0: "body no_headers_request = Some ''{id: 1}''"
    by (simp add: no_headers_request_def)
  have e: "''{id: 1}'' \<noteq> []"
    by simp
  have h0: "read_headers example_imports (Request.headers no_headers_request) (None, None, None) =
       (None, None, None)"
    by (simp add: no_headers_request_def)
  have d0: "(None :: string option) \<in> {None, Some []} \<or> (None :: string option) \<in> {None, Some []} \<or>
            (None :: string option) \<in> {None, Some []}"
    by simp
  have p0: "process example_imports example_context orders_registry no_headers_request
              fresh_response [] =
       (Some (InvalidWebhookError
          ''Missing one or more of the required HTTP headers to process webhooks: [X-Shopify-Hmac-Sha256, X-Shopify-Topic, X-Shopify-Shop-Domain]''),
        \<lparr>statusCode = 400, headers = [(''Content-Type'', ''text/plain'')]\<rparr>, [])"
    using process_lists_missing_headers [OF b0 e h0 d0, of example_context orders_registry
        fresh_response "[]"]
    by (simp add: Let_def example_imports_def fresh_response_def)
  have b1: "body no_topic_request = Some ''{id: 1}''"
    by (simp add: no_topic_request_def)
  have h1: "read_headers example_imports (Request.headers no_topic_request) (None, None, None) =
       (Some ''secret:{id: 1}'', None, Some ''shop.example.com'')"
    by code_simp
  have d1: "Some ''secret:{id: 1}'' \<in> {None, Some []} \<or> (None :: string option) \<in> {None, Some []} \<or>
            Some ''shop.example.com'' \<in> {None, Some []}"
    by simp
  have p1: "process example_imports example_context orders_registry no_topic_request
              fresh_response [] =
       (Some (InvalidWebhookError
          ''Missing one or more of the required HTTP headers to process webhooks: [X-Shopify-Topic]''),
        \<lparr>statusCode = 400, headers = [(''Content-Type'', ''text/plain'')]\<rparr>, [])"
    using process_lists_missing_headers [OF b1 e h1 d1, of example_context orders_registry
        fresh_response "[]"]
    by (simp add: Let_def example_imports_def fresh_response_def)
  show ?thesis
    by (intro conjI b0 e h0 p0 b1 h1 p1)
qed

text \<open>
  Claim C8. The status that \<^verbatim>\<open>process\<close> writes: 400 without a body or with a header
  missing, 403 when the digests differ, 403 when no handler is registered under the
  normalized topic, 500 when the handler throws, 200 when it resolves. The response that
  comes with a thrown error carries one of the statuses 400, 403 and 500, and status 200
  comes with no error.
\<close>

theorem process_status_table:
  "statusCode (fst (snd (process imp ctx reg request response w))) =
     (case body request of
        None \<Rightarrow> 400
      | Some b \<Rightarrow>
          if b = [] then 400
          else (case read_headers imp (Request.headers request) (None, None, None) of
                  (hmac, topic, domain) \<Rightarrow>
                    if \<not> truthy_string hmac \<or> \<not> truthy_string topic \<or> \<not> truthy_string domain
                    then 400
                    else if \<not> safeCompare imp (createSHA256HMAC imp (API_SECRET_KEY ctx) b) (the hmac)
                    then 403
                    else (case getHandler reg (graphqlTopic imp (the topic)) of
                            None \<Rightarrow> 403
                          | Some entry \<Rightarrow>
                              (case fst (webhookHandler entry (graphqlTopic imp (the topic))
                                           (the domain) b w) of
                                 Resolved \<Rightarrow> 200
                               | Rejected v \<Rightarrow> 500))))
   \<and> (fst (process imp ctx reg request response w) \<noteq> None \<longrightarrow>
        statusCode (fst (snd (process imp ctx reg request response w))) \<in> {400, 403, 500})
   \<and> (statusCode (fst (snd (process imp ctx reg request response w))) = 200 \<longrightarrow>
        fst (process imp ctx reg request response w) = None)"
proof (cases "truthy_string (body request)")
  case False
  then show ?thesis
    by (auto simp: process_without_body truthy_string_def split: option.splits)
next
  case True
  then obtain b where b: "body request = Some b" "b \<noteq> []"
    by (auto simp: truthy_string_def split: option.splits)
  obtain hmac topic domain
    where h: "read_headers imp (Request.headers request) (None, None, None) = (hmac, topic, domain)"
    by (cases "read_headers imp (Request.headers request) (None, None, None)")
  show ?thesis
  proof (cases "\<not> truthy_string hmac \<or> \<not> truthy_string topic \<or> \<not> truthy_string domain")
    case True
    have "process imp ctx reg request response w =
           (Some (InvalidWebhookError
              (''Missing one or more of the required HTTP headers to process webhooks: ['' @
               join '', '' (missingHeaders imp (hmac, topic, domain)) @ '']'')),
            response\<lparr>statusCode := 400\<rparr>, w)"
      using \<open>truthy_string (body request)\<close> h True by (rule process_with_missing_headers)
    then show ?thesis
      using b h True by simp
  next
    case False
    then obtain hv tv dv where v: "hmac = Some hv" "topic = Some tv" "domain = Some dv"
      "hv \<noteq> []" "tv \<noteq> []" "dv \<noteq> []"
      by (auto simp: truthy_string_def split: option.splits)
    have h': "read_headers imp (Request.headers request) (None, None, None) = (Some hv, Some tv, Some dv)"
      using h v by simp
    show ?thesis
      unfolding process_after_headers [OF b h' v(4-6)]
      using b h' v(4-6)
      by (auto simp: truthy_string_def split: option.splits prod.splits settled.splits)
  qed
qed


theorem process_status_table_witness:
  "fst (process example_imports example_context orders_registry forged_request fresh_response []) \<noteq> None
   \<and> statusCode (fst (snd (process example_imports example_context orders_registry forged_request
                              fresh_response []))) \<in> {400, 403, 500}
   \<and> statusCode (fst (snd (process example_imports example_context orders_registry signed_request
                              fresh_response []))) = 200
   \<and> fst (process example_imports example_context orders_registry signed_request fresh_response []) = None"
proof -
  have e: "fst (process example_imports example_context orders_registry forged_request
                  fresh_response []) \<noteq> None"
    by code_simp
  have s: "statusCode (fst (snd (process example_imports example_context orders_registry
                                   signed_request fresh_response []))) = 200"
    by code_simp
  show ?thesis
    using e s
      process_status_table [of example_imports example_context orders_registry forged_request
        fresh_response "[]"]
      process_status_table [of example_imports example_context orders_registry signed_request
        fresh_response "[]"]
    by blast
qed






end
